theory Spec2Isabelle
  imports Main "HOL-Library.AList" "HOL-Library.FSet"
begin

section \<open>Data model of the controller's event handlers\<close>

text \<open>
  The embedding follows \<^verbatim>\<open>services/controllerhost/event_handlers.go\<close>.
  The Go \<open>Context\<close> is a bundle of handles to collaborators whose code is outside that
  file. It is split in two here. The record \<open>Context\<close> holds what the collaborators
  answer (metadata gateway, host directory, client factory, store clients, token bucket,
  result cache reader, clock): each field is a function from the arguments of the call
  to its answer, and a handler never changes it, so that within one run of a handler a
  call repeated with the same arguments has the same answer. The record \<open>World\<close> holds what a handler
  changes through those handles: the event queue, the tracking sets, the writes to the
  result cache, the calls sent to stores and to the metadata store, counters and log
  lines. Every handler takes a \<open>World\<close> and returns the updated one.
\<close>

datatype ExtentStatus =
  ExtentStatus_OPEN | ExtentStatus_SEALED | ExtentStatus_CONSUMED
  | ExtentStatus_ARCHIVED | ExtentStatus_DELETED

datatype ConsumerGroupStatus =
  ConsumerGroupStatus_ENABLED | ConsumerGroupStatus_DISABLED | ConsumerGroupStatus_DELETED

datatype ConsumerGroupExtentStatus =
  ConsumerGroupExtentStatus_OPEN | ConsumerGroupExtentStatus_CONSUMED
  | ConsumerGroupExtentStatus_DELETED

datatype NotificationType =
  NotificationType_HOST | NotificationType_CLIENT | NotificationType_ALL

datatype ServiceName = InputServiceName | OutputServiceName | StoreServiceName

text \<open>Errors are values. \<open>errRetryable\<close> is the sentinel of the retry executor;
  \<open>IllegalStateError\<close> is the distinguished error of the metadata store; every other
  error (transport, client factory, resolution) is \<open>OtherError\<close> with its message.\<close>

datatype err = errRetryable | IllegalStateError string | OtherError string

record Extent =
  ExtentUUID :: string
  DestinationUUID :: string
  StoreUUIDs :: "string list"
  InputHostUUID :: string
  OriginZone :: string

record ExtentStats =
  GetExtent :: Extent
  GetStatus :: ExtentStatus

record ConsumerGroupDescription =
  ConsumerGroupUUID :: string
  Status :: ConsumerGroupStatus

record ConsumerGroupExtent =
  OutputHostUUID :: string

subsection \<open>Events\<close>

record ExtentCreatedEvent =
  ec_dstID :: string
  ec_inHostID :: string
  ec_extentID :: string
  ec_storeIDs :: "string list"

record InputHostNotificationEvent =
  ihn_dstID :: string
  ihn_inputHostID :: string
  ihn_extentID :: string
  ihn_storeIDs :: "string list"
  ihn_reason :: string
  ihn_reasonContext :: string
  ihn_notificationType :: NotificationType

record OutputHostNotificationEvent =
  ohn_dstID :: string
  ohn_consGroupID :: string
  ohn_outputHostID :: string
  ohn_reason :: string
  ohn_reasonContext :: string
  ohn_notificationType :: NotificationType

text \<open>\<open>state\<close> is a Go \<open>int\<close>; the handler has a default branch for values that
  are none of the four constants, so the field stays an integer.\<close>

record ExtentDownEvent =
  state :: int
  sealSeq :: int
  dstID :: string
  extentID :: string
  storeIDs :: "string list"

record RemoteZoneExtentCreatedEvent =
  rz_dstID :: string
  rz_extentID :: string
  rz_storeIDs :: "string list"



text \<open>The interface \<open>Event\<close>, for the kinds of event the handlers put on the queue.\<close>

datatype Event =
  EvInputHostNotification InputHostNotificationEvent
  | EvOutputHostNotification OutputHostNotificationEvent
  | EvExtentDown ExtentDownEvent

definition checkPreconditionState :: int where "checkPreconditionState = 0"
definition sealExtentState :: int where "sealExtentState = 1"
definition updateMetadataState :: int where "updateMetadataState = 2"
definition doneState :: int where "doneState = 3"

lemmas state_defs =
  checkPreconditionState_def sealExtentState_def updateMetadataState_def doneState_def

text \<open>Durations are nanoseconds, as \<open>time.Duration\<close> is.\<close>

definition Millisecond :: int where "Millisecond = 1000000"
definition Second :: int where "Second = 1000 * Millisecond"
definition Minute :: int where "Minute = 60 * Second"

definition resultCacheRefreshMaxWaitTime :: int where
  "resultCacheRefreshMaxWaitTime = 500 * Millisecond"

definition sealExtentInitialCallTimeout :: int where "sealExtentInitialCallTimeout = 2 * Second"
definition sealExtentRetryCallTimeout :: int where "sealExtentRetryCallTimeout = 20 * Second"
definition replicateExtentCallTimeout :: int where "replicateExtentCallTimeout = 20 * Second"

definition notifyExtentCreated :: string where "notifyExtentCreated = ''ExtentCreated''"

record RetryPolicy =
  initialInterval :: int
  maximumInterval :: int
  expirationInterval :: int
  maximumAttempts :: int

definition createRetryPolicy :: "int \<Rightarrow> int \<Rightarrow> int \<Rightarrow> int \<Rightarrow> RetryPolicy" where
  "createRetryPolicy initial mx expiry maxAttempts =
     \<lparr>initialInterval = initial, maximumInterval = mx,
      expirationInterval = expiry, maximumAttempts = maxAttempts\<rparr>"

definition sealExtentInitialRetryPolicy :: RetryPolicy where
  "sealExtentInitialRetryPolicy = createRetryPolicy (500 * Millisecond) (10 * Second) Minute 2"

definition sealExtentRetryPolicy :: RetryPolicy where
  "sealExtentRetryPolicy = createRetryPolicy (3 * Second) (30 * Second) Minute 3"

subsection \<open>Requests, the result cache, counters and the log\<close>

record SealExtentRequest =
  req_ExtentUUID :: string
  req_SequenceNumber :: "int option"

record resultCacheEntry =
  dstType :: int
  nExtents :: int
  hostIDs :: "string list"
  expiry :: int

record resultCacheReadResult =
  cacheHit :: bool
  refreshCache :: bool
  resultCacheEntry :: resultCacheEntry

text \<open>The calls that leave the controller: RPCs to store hosts, the metadata mutation
  \<open>SealExtent\<close>, and the extent monitor's cache invalidation, in the order made.\<close>

datatype Call =
  StoreSealExtent string string SealExtentRequest int RetryPolicy
  | StoreRemoteReplicateExtent string string string
  | StoreReplicateExtent string string string string
  | MetadataSealExtent string string
  | InvalidateStoreExtentCache string string

datatype MetricScope =
  ExtentCreatedEventScope | InputFailedEventScope | StoreFailedEventScope
  | ExtentDownEventScope | RemoteZoneExtentCreatedEventScope

datatype Metric =
  ControllerRequests | ControllerFailures | ControllerErrMetadataReadCounter
  | ControllerErrNoHealthyStoreCounter | ControllerErrSealFailed | ControllerRateLimited
  | ControllerErrMetadataUpdateCounter

datatype LogLevel = LogError | LogInfo

record resultCacheParams =
  rp_dstType :: int
  rp_nExtents :: int
  rp_hostIDs :: "string list"
  rp_expiry :: int

record Context =
  localZone :: string
  timeNow :: int
  mm_ListExtentsByDstIDStatus :: "string \<Rightarrow> ExtentStatus list \<Rightarrow> err + ExtentStats list"
  mm_ListExtentsByInputIDStatus :: "string \<Rightarrow> ExtentStatus option \<Rightarrow> err + ExtentStats list"
  mm_ListExtentsByStoreIDStatus :: "string \<Rightarrow> ExtentStatus option \<Rightarrow> err + ExtentStats list"
  mm_ListConsumerGroupsByDstID :: "string \<Rightarrow> ConsumerGroupDescription list \<times> err option"
  mm_ListExtentsByConsumerGroup ::
    "string \<Rightarrow> string \<Rightarrow> ConsumerGroupExtentStatus list \<Rightarrow> err + ConsumerGroupExtent list"
  mm_ReadExtentStats :: "string \<Rightarrow> string \<Rightarrow> err + ExtentStats"
  mm_SealExtent :: "string \<Rightarrow> string \<Rightarrow> err option"
  rpm_ResolveUUID :: "ServiceName \<Rightarrow> string \<Rightarrow> err + string"
  clientFactory_GetThriftStoreClient :: "string \<Rightarrow> string \<Rightarrow> err option"
  backoff_Retry_SealExtent ::
    "string \<Rightarrow> string \<Rightarrow> SealExtentRequest \<Rightarrow> int \<Rightarrow> RetryPolicy \<Rightarrow> err option"
  storeClient_RemoteReplicateExtent :: "string \<Rightarrow> string \<Rightarrow> string \<Rightarrow> err option"
  storeClient_ReplicateExtent :: "string \<Rightarrow> string \<Rightarrow> string \<Rightarrow> string \<Rightarrow> err option"
  tokenBucket_TryConsume :: "int \<Rightarrow> bool"
  tokenBucket_Consume :: "int \<Rightarrow> int \<Rightarrow> bool"
  common_IsRemoteZoneExtent :: "string \<Rightarrow> string \<Rightarrow> bool"
  resultCache_readOutputHosts :: "string \<Rightarrow> int \<Rightarrow> resultCacheReadResult"
  eventPipeline_full :: "(Event \<times> bool) list \<Rightarrow> bool"

record World =
  eventPipeline :: "(Event \<times> bool) list"
  failed :: "string fset"
  inProgress :: "string fset"
  resultCache_writes :: "(string \<times> resultCacheParams) list"
  calls :: "Call list"
  m3Client :: "(MetricScope \<times> Metric) list"
  log :: "(LogLevel \<times> string) list"

definition IncCounter :: "MetricScope \<Rightarrow> Metric \<Rightarrow> World \<Rightarrow> World" where
  "IncCounter scope c w = w\<lparr>m3Client := m3Client w @ [(scope, c)]\<rparr>"

definition log_Error :: "string \<Rightarrow> World \<Rightarrow> World" where
  "log_Error msg w = w\<lparr>log := log w @ [(LogError, msg)]\<rparr>"

definition log_Info :: "string \<Rightarrow> World \<Rightarrow> World" where
  "log_Info msg w = w\<lparr>log := log w @ [(LogInfo, msg)]\<rparr>"

definition record_call :: "Call \<Rightarrow> World \<Rightarrow> World" where
  "record_call c w = w\<lparr>calls := calls w @ [c]\<rparr>"


section \<open>ExtentDownEvent: the seal state machine\<close>

text \<open>What one pass through the \<open>switch\<close> does: it returns from \<open>Handle\<close>, or it
  falls out of the \<open>switch\<close> and the \<open>for\<close> loop runs again.\<close>

datatype flow = Return "err option" | NextIteration

text \<open>\<open>sealExtentOnStore\<close>. The sequence number is sent only when positive; timeout
  and retry policy depend on \<open>isRetry\<close>. \<open>backoff.Retry(sealOp, retryPolicy, ...)\<close> is
  the field \<open>backoff_Retry_SealExtent\<close>: its answer is the last error of the retried RPC.
  The client factory's reference count (\<open>ReleaseThriftStoreClient\<close>) is not modelled.\<close>

definition sealExtentOnStore ::
  "Context \<Rightarrow> World \<Rightarrow> string \<Rightarrow> string \<Rightarrow> string \<Rightarrow> int \<Rightarrow> bool \<Rightarrow> MetricScope
     \<Rightarrow> err option \<times> World" where
  "sealExtentOnStore ctx w storeUUID storeAddr extID seq isRetry m3Scope =
     (case clientFactory_GetThriftStoreClient ctx storeAddr storeUUID of
        Some e \<Rightarrow> (Some e, log_Error ''Client factory failed to vend store client'' w)
      | None \<Rightarrow>
          (let req = \<lparr>req_ExtentUUID = extID,
                      req_SequenceNumber = (if seq > 0 then Some seq else None)\<rparr>;
               timeout = (if isRetry then sealExtentRetryCallTimeout
                          else sealExtentInitialCallTimeout);
               retryPolicy = (if isRetry then sealExtentRetryPolicy
                              else sealExtentInitialRetryPolicy);
               w1 = record_call (StoreSealExtent storeUUID storeAddr req timeout retryPolicy) w
           in case backoff_Retry_SealExtent ctx storeUUID storeAddr req timeout retryPolicy of
                Some e \<Rightarrow>
                  (Some e, log_Error ''Sealing extent failed on store, retries exceeded'' w1)
              | None \<Rightarrow> (None, w1)))"

definition invalidateStoreExtentCache :: "World \<Rightarrow> string \<Rightarrow> string \<Rightarrow> World" where
  "invalidateStoreExtentCache w storeID extID =
     record_call (InvalidateStoreExtentCache storeID extID) w"

text \<open>\<open>atomic.AddInt32\<close>: addition on 32-bit signed integers wraps around.\<close>

definition atomic_AddInt32 :: "int \<Rightarrow> int \<Rightarrow> int" where
  "atomic_AddInt32 n d = signed_take_bit 31 (n + d)"

text \<open>The map \<open>stores\<close> from store UUID to address: an association list with one entry
  for each key, filled in the order of \<open>event.storeIDs\<close>; a store that does not resolve
  is skipped.\<close>

definition resolveStores :: "Context \<Rightarrow> string list \<Rightarrow> (string \<times> string) list" where
  "resolveStores ctx ids =
     fold (\<lambda>s stores. case rpm_ResolveUUID ctx StoreServiceName s of
                         Inl e \<Rightarrow> stores
                       | Inr addr \<Rightarrow> AList.update s addr stores) ids []"

text \<open>The body of the goroutine started for each entry of \<open>stores\<close>. The goroutines
  run in parallel and are joined by \<open>wg.Wait()\<close>; the model runs them one after the
  other, in the order of the association list. The counter and the set of invalidated
  stores do not depend on that order.\<close>

definition sealGoroutine ::
  "Context \<Rightarrow> bool \<Rightarrow> ExtentDownEvent \<Rightarrow> string \<times> string \<Rightarrow> int \<times> World \<Rightarrow> int \<times> World" where
  "sealGoroutine ctx isRetry ev kv acc =
     (case kv of (uuid, addr) \<Rightarrow> case acc of (nSuccess, w) \<Rightarrow>
        (case sealExtentOnStore ctx w uuid addr (extentID ev) (sealSeq ev) isRetry
                ExtentDownEventScope of
           (None, w1) \<Rightarrow>
             (atomic_AddInt32 nSuccess 1, invalidateStoreExtentCache w1 uuid (extentID ev))
         | (Some e, w1) \<Rightarrow> (nSuccess, w1)))"

text \<open>\<open>case checkPreconditionState\<close>. The second test of \<open>err != nil\<close> in the source
  is unreachable, the first one has returned already.\<close>

definition checkPrecondition_case ::
  "ExtentDownEvent \<Rightarrow> Context \<Rightarrow> World \<Rightarrow> flow \<times> ExtentDownEvent \<times> World" where
  "checkPrecondition_case ev ctx w =
     (case mm_ReadExtentStats ctx (dstID ev) (extentID ev) of
        Inl e \<Rightarrow>
          (let w1 = IncCounter ExtentDownEventScope ControllerErrMetadataReadCounter w;
               w2 = IncCounter ExtentDownEventScope ControllerFailures w1
           in (Return (Some errRetryable), ev, w2))
      | Inr stats \<Rightarrow>
          if GetStatus stats \<noteq> ExtentStatus_OPEN then
            (let w1 = IncCounter ExtentDownEventScope ControllerFailures w;
                 w2 = log_Error
                   ''ExtentDownEvent: Extent is not in OPEN state, dropping event'' w1
             in (Return None, ev, w2))
          else
            (NextIteration,
             ev\<lparr>storeIDs := StoreUUIDs (GetExtent stats), state := sealExtentState\<rparr>, w))"

text \<open>\<open>case sealExtentState\<close>.\<close>

definition sealExtent_case ::
  "bool \<Rightarrow> ExtentDownEvent \<Rightarrow> Context \<Rightarrow> World \<Rightarrow> flow \<times> ExtentDownEvent \<times> World" where
  "sealExtent_case isRetry ev ctx w =
     (let stores = resolveStores ctx (storeIDs ev) in
      if int (length stores) < 1 then
        (let w1 = IncCounter ExtentDownEventScope ControllerFailures w;
             w2 = IncCounter ExtentDownEventScope ControllerErrNoHealthyStoreCounter w1;
             w3 = IncCounter ExtentDownEventScope ControllerErrSealFailed w2;
             w4 = log_Error ''Can't seal extent, none of the store hosts are healthy'' w3
         in (Return (Some errRetryable), ev, w4))
      else
        (let rateLimited =
               (if \<not> isRetry then \<not> tokenBucket_TryConsume ctx 1
                else \<not> tokenBucket_Consume ctx 1 (10 * Second))
         in if rateLimited then
              (Return (Some errRetryable), ev,
               IncCounter ExtentDownEventScope ControllerRateLimited w)
            else
              (case fold (sealGoroutine ctx isRetry ev) stores (0, w) of
                 (nSuccess, w1) \<Rightarrow>
                   if nSuccess < 1 then
                     (let w2 = IncCounter ExtentDownEventScope ControllerFailures w1;
                          w3 = IncCounter ExtentDownEventScope ControllerErrSealFailed w2;
                          w4 = log_Error ''Sealing extent timed out on all stores'' w3
                      in (Return (Some errRetryable), ev, w4))
                   else
                     (NextIteration, ev\<lparr>state := updateMetadataState\<rparr>,
                      log_Info ''Extent SEALED'' w1))))"

text \<open>\<open>case updateMetadataState\<close>. \<open>failed.Remove\<close> takes the key out of the set.\<close>

definition updateMetadata_case ::
  "ExtentDownEvent \<Rightarrow> Context \<Rightarrow> World \<Rightarrow> flow \<times> ExtentDownEvent \<times> World" where
  "updateMetadata_case ev ctx w =
     (let w1 = record_call (MetadataSealExtent (dstID ev) (extentID ev)) w in
      case mm_SealExtent ctx (dstID ev) (extentID ev) of
        Some e \<Rightarrow>
          (let w2 = IncCounter ExtentDownEventScope ControllerFailures w1;
               w3 = IncCounter ExtentDownEventScope ControllerErrMetadataUpdateCounter w2;
               w4 = log_Error ''Extent sealed, but failed to update metadata'' w3
           in case e of
                IllegalStateError msg \<Rightarrow>
                  (let w5 = log_Error
                     ''Moving forward without updating metadata after SEALing extent, state has already moved forward''
                     w4
                   in (NextIteration, ev\<lparr>state := doneState\<rparr>,
                       w5\<lparr>failed := failed w5 |-| {|extentID ev|}\<rparr>))
              | errRetryable \<Rightarrow> (Return (Some errRetryable), ev, w4)
              | OtherError msg \<Rightarrow> (Return (Some errRetryable), ev, w4))
      | None \<Rightarrow>
          (NextIteration, ev\<lparr>state := doneState\<rparr>,
           w1\<lparr>failed := failed w1 |-| {|extentID ev|}\<rparr>))"

lemma checkPrecondition_case_next:
  "checkPrecondition_case ev ctx w = (NextIteration, ev', w') \<Longrightarrow> state ev' = sealExtentState"
  by (auto simp: checkPrecondition_case_def Let_def split: sum.splits if_splits)

lemma sealExtent_case_next:
  "sealExtent_case isRetry ev ctx w = (NextIteration, ev', w')
     \<Longrightarrow> state ev' = updateMetadataState"
  by (auto simp: sealExtent_case_def Let_def split: if_splits prod.splits)

lemma updateMetadata_case_next:
  "updateMetadata_case ev ctx w = (NextIteration, ev', w') \<Longrightarrow> state ev' = doneState"
  by (auto simp: updateMetadata_case_def Let_def split: option.splits err.splits)

text \<open>The \<open>for\<close> loop around the \<open>switch\<close>. It ends because a pass that does not
  return moves \<open>state\<close> one step towards \<open>doneState\<close>.\<close>

function ExtentDownEvent_loop ::
  "bool \<Rightarrow> ExtentDownEvent \<Rightarrow> Context \<Rightarrow> World \<Rightarrow> err option \<times> ExtentDownEvent \<times> World" where
  "ExtentDownEvent_loop isRetry ev ctx w =
     (if state ev = checkPreconditionState then
        (case checkPrecondition_case ev ctx w of
           (Return r, ev1, w1) \<Rightarrow> (r, ev1, w1)
         | (NextIteration, ev1, w1) \<Rightarrow> ExtentDownEvent_loop isRetry ev1 ctx w1)
      else if state ev = sealExtentState then
        (case sealExtent_case isRetry ev ctx w of
           (Return r, ev1, w1) \<Rightarrow> (r, ev1, w1)
         | (NextIteration, ev1, w1) \<Rightarrow> ExtentDownEvent_loop isRetry ev1 ctx w1)
      else if state ev = updateMetadataState then
        (case updateMetadata_case ev ctx w of
           (Return r, ev1, w1) \<Rightarrow> (r, ev1, w1)
         | (NextIteration, ev1, w1) \<Rightarrow> ExtentDownEvent_loop isRetry ev1 ctx w1)
      else if state ev = doneState then (None, ev, w)
      else (None, ev, log_Error ''ExtentDownEvent encountered illegal state'' w))"
  by pat_completeness auto
termination
proof (relation "measure (\<lambda>(isRetry, ev, ctx, w). nat (3 - state ev))")
  show "wf (measure (\<lambda>(isRetry, ev, ctx, w). nat (3 - state ev)))" by simp
next
  fix isRetry ev ctx w x y x1 ev1 w1
  assume "state ev = checkPreconditionState" "(x, y) = checkPrecondition_case ev ctx w"
    "(ev1, w1) = y" "x = NextIteration"
  then have "state ev1 = sealExtentState"
    using checkPrecondition_case_next [of ev ctx w ev1 w1] by simp
  with \<open>state ev = checkPreconditionState\<close>
  show "((isRetry, ev1, ctx, w1), (isRetry, ev, ctx, w))
          \<in> measure (\<lambda>(isRetry, ev, ctx, w). nat (3 - state ev))"
    by (simp add: state_defs)
next
  fix isRetry ev ctx w x y x1 ev1 w1
  assume "state ev = sealExtentState" "(x, y) = sealExtent_case isRetry ev ctx w"
    "(ev1, w1) = y" "x = NextIteration"
  then have "state ev1 = updateMetadataState"
    using sealExtent_case_next [of isRetry ev ctx w ev1 w1] by simp
  with \<open>state ev = sealExtentState\<close>
  show "((isRetry, ev1, ctx, w1), (isRetry, ev, ctx, w))
          \<in> measure (\<lambda>(isRetry, ev, ctx, w). nat (3 - state ev))"
    by (simp add: state_defs)
next
  fix isRetry ev ctx w x y x1 ev1 w1
  assume "state ev = updateMetadataState" "(x, y) = updateMetadata_case ev ctx w"
    "(ev1, w1) = y" "x = NextIteration"
  then have "state ev1 = doneState"
    using updateMetadata_case_next [of ev ctx w ev1 w1] by simp
  with \<open>state ev = updateMetadataState\<close>
  show "((isRetry, ev1, ctx, w1), (isRetry, ev, ctx, w))
          \<in> measure (\<lambda>(isRetry, ev, ctx, w). nat (3 - state ev))"
    by (simp add: state_defs)
qed

declare ExtentDownEvent_loop.simps [simp del]

text \<open>\<open>ExtentDownEvent.Handle\<close>: \<open>isRetry\<close> is fixed on entry, before the loop.\<close>

definition ExtentDownEvent_Handle ::
  "ExtentDownEvent \<Rightarrow> Context \<Rightarrow> World \<Rightarrow> err option \<times> ExtentDownEvent \<times> World" where
  "ExtentDownEvent_Handle ev ctx w =
     (let isRetry = \<not> (state ev = checkPreconditionState);
          w1 = IncCounter ExtentDownEventScope ControllerRequests w
      in ExtentDownEvent_loop isRetry ev ctx w1)"

text \<open>\<open>ExtentDownEvent.Done\<close>. The constant \<open>maxFailedExtentSealSetSize\<close> is declared
  outside the file and is a parameter here. \<open>failed.Size()\<close> is the number of keys,
  \<open>failed.Put\<close> adds the key, \<open>inProgress.Remove\<close> takes it out.\<close>

definition ExtentDownEvent_Done ::
  "int \<Rightarrow> ExtentDownEvent \<Rightarrow> World \<Rightarrow> err option \<Rightarrow> World" where
  "ExtentDownEvent_Done maxFailedExtentSealSetSize ev w e =
     (let w1 =
            (if e \<noteq> None then
               (if int (fcard (failed w)) > maxFailedExtentSealSetSize then
                  log_Error
                    ''All retries exceeded for SEALing, cannot keep track of another failed extent in memory, too many failed extents''
                    w
                else w\<lparr>failed := finsert (extentID ev) (failed w)\<rparr>)
             else w)
      in w1\<lparr>inProgress := inProgress w1 |-| {|extentID ev|}\<rparr>)"


section \<open>The event queue\<close>

text \<open>Modelled from the spec: \<open>eventPipeline.Add\<close>, whose code is outside the file, is
  a non-blocking offer to a bounded queue that returns false when the queue is full.
  Consumers drain the queue while a handler runs, so whether the queue is full at an
  offer is an answer of the environment: \<open>eventPipeline_full\<close>, applied to the offers
  made so far. \<open>eventPipeline\<close> keeps every offer with its answer; \<open>enqueued\<close> are the
  events that were accepted, \<open>offered\<close> all events handed to \<open>Add\<close>.\<close>

definition eventPipeline_Add :: "Context \<Rightarrow> World \<Rightarrow> Event \<Rightarrow> bool \<times> World" where
  "eventPipeline_Add ctx w e =
     (let ok = \<not> eventPipeline_full ctx (eventPipeline w)
      in (ok, w\<lparr>eventPipeline := eventPipeline w @ [(e, ok)]\<rparr>))"

definition offered :: "World \<Rightarrow> Event list" where
  "offered w = map fst (eventPipeline w)"

definition enqueued :: "World \<Rightarrow> Event list" where
  "enqueued w = map fst (filter snd (eventPipeline w))"

definition NewInputHostNotificationEvent ::
  "string \<Rightarrow> string \<Rightarrow> string \<Rightarrow> string list \<Rightarrow> string \<Rightarrow> string \<Rightarrow> NotificationType \<Rightarrow> Event" where
  "NewInputHostNotificationEvent dst inputHost ext stores reason reasonContext nt =
     EvInputHostNotification
       \<lparr>ihn_dstID = dst, ihn_inputHostID = inputHost, ihn_extentID = ext,
        ihn_storeIDs = stores, ihn_reason = reason, ihn_reasonContext = reasonContext,
        ihn_notificationType = nt\<rparr>"

definition NewOutputHostNotificationEvent ::
  "string \<Rightarrow> string \<Rightarrow> string \<Rightarrow> string \<Rightarrow> string \<Rightarrow> NotificationType \<Rightarrow> Event" where
  "NewOutputHostNotificationEvent dst consGroup outputHost reason reasonContext nt =
     EvOutputHostNotification
       \<lparr>ohn_dstID = dst, ohn_consGroupID = consGroup, ohn_outputHostID = outputHost,
        ohn_reason = reason, ohn_reasonContext = reasonContext,
        ohn_notificationType = nt\<rparr>"


definition NewRemoteZoneExtentCreatedEvent ::
  "string \<Rightarrow> string \<Rightarrow> string list \<Rightarrow> RemoteZoneExtentCreatedEvent" where
  "NewRemoteZoneExtentCreatedEvent dst ext stores =
     \<lparr>rz_dstID = dst, rz_extentID = ext, rz_storeIDs = stores\<rparr>"

section \<open>The result cache refresh trigger\<close>

text \<open>\<open>now + resultCacheRefreshMaxWaitTime\<close> is an addition of \<open>int64\<close> values.\<close>

definition int64_add :: "int \<Rightarrow> int \<Rightarrow> int" where
  "int64_add a b = signed_take_bit 63 (a + b)"

definition resultCache_write :: "World \<Rightarrow> string \<Rightarrow> resultCacheParams \<Rightarrow> World" where
  "resultCache_write w cgID params =
     w\<lparr>resultCache_writes := resultCache_writes w @ [(cgID, params)]\<rparr>"

text \<open>\<open>triggerCacheRefreshForCG\<close>. \<open>time.Now().UnixNano()\<close> is \<open>timeNow\<close>;
  \<open>result.expiry\<close> is the expiry of the entry the read returned.\<close>

definition triggerCacheRefreshForCG :: "Context \<Rightarrow> World \<Rightarrow> string \<Rightarrow> World" where
  "triggerCacheRefreshForCG ctx w cgID =
     (let now = timeNow ctx;
          result = resultCache_readOutputHosts ctx cgID now
      in if \<not> cacheHit result \<or> refreshCache result then w
         else
           (let cacheEntry = resultCacheEntry result;
                deadline = int64_add now resultCacheRefreshMaxWaitTime
            in if expiry (resultCacheEntry result) < deadline then w
               else resultCache_write w cgID
                      \<lparr>rp_dstType = dstType cacheEntry, rp_nExtents = nExtents cacheEntry,
                       rp_hostIDs = hostIDs cacheEntry, rp_expiry = now\<rparr>))"

section \<open>ExtentCreatedEvent: the notification fan-out\<close>

text \<open>The body of the loop over the output hosts of one consumer group.\<close>

definition notifyOutputHost ::
  "Context \<Rightarrow> string \<Rightarrow> string \<Rightarrow> string \<Rightarrow> string \<Rightarrow> string \<Rightarrow> World \<Rightarrow> World" where
  "notifyOutputHost ctx dst cg reason reasonContext k w =
     (case eventPipeline_Add ctx w
             (NewOutputHostNotificationEvent dst cg k reason reasonContext
                NotificationType_CLIENT) of
        (ok, w1) \<Rightarrow>
          if \<not> ok then
            log_Error
              ''reconfigureAllConsumers: Failed to enqueue OutputHostNotificationEvent, event queue full''
              w1
          else w1)"

text \<open>The body of the loop over the consumer groups of the destination. The Go map
  \<open>outhosts\<close> is an association list with one entry for each key; the source ranges
  over it in an order Go leaves open, the model in the order of insertion.\<close>

definition reconfigureConsumerGroup ::
  "Context \<Rightarrow> string \<Rightarrow> string \<Rightarrow> string \<Rightarrow> ConsumerGroupDescription \<Rightarrow> World \<Rightarrow> World" where
  "reconfigureConsumerGroup ctx dst reason reasonContext cgd w =
     (if Status cgd \<noteq> ConsumerGroupStatus_ENABLED then w
      else
        (case mm_ListExtentsByConsumerGroup ctx dst (ConsumerGroupUUID cgd)
                [ConsumerGroupExtentStatus_OPEN] of
           Inl e \<Rightarrow> w
         | Inr extents \<Rightarrow>
             (let outhosts = fold (\<lambda>ext m. AList.update (OutputHostUUID ext) () m) extents [];
                  w1 = fold (notifyOutputHost ctx dst (ConsumerGroupUUID cgd) reason
                               reasonContext) (map fst outhosts) w
              in triggerCacheRefreshForCG ctx w1 (ConsumerGroupUUID cgd))))"

definition reconfigureAllConsumers ::
  "Context \<Rightarrow> World \<Rightarrow> string \<Rightarrow> string \<Rightarrow> string \<Rightarrow> string \<Rightarrow> MetricScope \<Rightarrow> World" where
  "reconfigureAllConsumers ctx w dst ext reason reasonContext m3Scope =
     (case mm_ListConsumerGroupsByDstID ctx dst of
        (consGroups, e) \<Rightarrow>
          (let w1 = (if e \<noteq> None then
                       log_Error
                         ''ListConsumerGroups failed, cannot notify output hosts about new extent''
                         (IncCounter ExtentCreatedEventScope ControllerErrMetadataReadCounter w)
                     else w)
           in fold (reconfigureConsumerGroup ctx dst reason reasonContext) consGroups w1))"

text \<open>The body of the loop that sends the CLIENT notifications.\<close>

definition notifyInputHostClient :: "Context \<Rightarrow> ExtentCreatedEvent \<Rightarrow> string \<Rightarrow> World \<Rightarrow> World" where
  "notifyInputHostClient ctx ev k w =
     (case eventPipeline_Add ctx w
             (NewInputHostNotificationEvent (ec_dstID ev) k (ec_extentID ev) (ec_storeIDs ev)
                notifyExtentCreated (ec_extentID ev) NotificationType_CLIENT) of
        (succ, w1) \<Rightarrow>
          if \<not> succ then
            log_Error ''ExtentCreatedEvent: Failed to enqueue InputHostNotificationEvent''
              (IncCounter ExtentCreatedEventScope ControllerFailures w1)
          else w1)"

text \<open>The map \<open>inHostIDs\<close>, after the listing of the OPEN extents of the destination.\<close>

definition collectInHostIDs :: "Context \<Rightarrow> ExtentCreatedEvent \<Rightarrow> (string \<times> bool) list" where
  "collectInHostIDs ctx ev =
     (let inHostIDs = AList.update (ec_inHostID ev) True [] in
      case mm_ListExtentsByDstIDStatus ctx (ec_dstID ev) [ExtentStatus_OPEN] of
        Inr stats \<Rightarrow>
          fold (\<lambda>stat m. AList.update (InputHostUUID (GetExtent stat)) True m) stats inHostIDs
      | Inl e \<Rightarrow> inHostIDs)"

text \<open>\<open>ExtentCreatedEvent.Handle\<close>. When \<open>Add\<close> refuses the ALL notification the
  handler returns at once.\<close>

definition ExtentCreatedEvent_Handle ::
  "ExtentCreatedEvent \<Rightarrow> Context \<Rightarrow> World \<Rightarrow> err option \<times> World" where
  "ExtentCreatedEvent_Handle ev ctx w =
     (let w1 = IncCounter ExtentCreatedEventScope ControllerRequests w;
          inHostIDs = collectInHostIDs ctx ev;
          w2 = (case mm_ListExtentsByDstIDStatus ctx (ec_dstID ev) [ExtentStatus_OPEN] of
                  Inr stats \<Rightarrow> w1
                | Inl e \<Rightarrow>
                    log_Error
                      ''ListExtents failed, not all input hosts can be notified about new extent''
                      (IncCounter ExtentCreatedEventScope ControllerErrMetadataReadCounter w1));
          notifyEvent =
            NewInputHostNotificationEvent (ec_dstID ev) (ec_inHostID ev) (ec_extentID ev)
              (ec_storeIDs ev) notifyExtentCreated (ec_extentID ev) NotificationType_ALL
      in case eventPipeline_Add ctx w2 notifyEvent of
           (False, w3) \<Rightarrow>
             (None,
              log_Error ''ExtentCreatedEvent: Failed to enqueue InputHostNotificationEvent''
                (IncCounter ExtentCreatedEventScope ControllerFailures w3))
         | (True, w3) \<Rightarrow>
             (let inHostIDs1 = AList.delete (ec_inHostID ev) inHostIDs;
                  w4 = fold (notifyInputHostClient ctx ev) (map fst inHostIDs1) w3;
                  w5 = reconfigureAllConsumers ctx w4 (ec_dstID ev) (ec_extentID ev)
                         notifyExtentCreated (ec_extentID ev) ExtentCreatedEventScope
              in (None, w5)))"

section \<open>InputHostFailedEvent and StoreHostFailedEvent\<close>





section \<open>RemoteZoneExtentCreatedEvent: ordered replication\<close>

text \<open>Indexing a slice out of range is a run-time panic in Go; the handler then has no
  return value.\<close>

datatype panic = IndexOutOfRange

definition at_index :: "string list \<Rightarrow> nat \<Rightarrow> panic + string" where
  "at_index xs i = (if i < length xs then Inr (xs ! i) else Inl IndexOutOfRange)"

text \<open>The steps on the primary store: resolve, obtain a client, \<open>RemoteReplicateExtent\<close>.
  The result is the error the handler returns at once, or \<open>None\<close>.\<close>

definition replicateToPrimary ::
  "Context \<Rightarrow> RemoteZoneExtentCreatedEvent \<Rightarrow> string \<Rightarrow> World \<Rightarrow> err option \<times> World" where
  "replicateToPrimary ctx ev primaryStoreID w =
     (case rpm_ResolveUUID ctx StoreServiceName primaryStoreID of
        Inl e \<Rightarrow> (Some errRetryable, w)
      | Inr primaryStoreAddr \<Rightarrow>
          (case clientFactory_GetThriftStoreClient ctx primaryStoreAddr primaryStoreID of
             Some e \<Rightarrow> (Some e, log_Error ''Client factory failed to get store client'' w)
           | None \<Rightarrow>
               (let w1 = record_call
                           (StoreRemoteReplicateExtent primaryStoreID (rz_dstID ev)
                              (rz_extentID ev)) w
                in case storeClient_RemoteReplicateExtent ctx primaryStoreID (rz_dstID ev)
                          (rz_extentID ev) of
                     Some e \<Rightarrow>
                       (Some e,
                        log_Error
                          ''Attempt to call RemoteReplicateExtent on storehost failed'' w1)
                   | None \<Rightarrow> (None, w1))))"

text \<open>The body of the loop over the secondaries, for the store \<open>event.storeIDs[i]\<close>:
  resolve, obtain a client, \<open>ReplicateExtent\<close> with the primary as source.\<close>

definition replicateToSecondary ::
  "Context \<Rightarrow> RemoteZoneExtentCreatedEvent \<Rightarrow> string \<Rightarrow> string \<Rightarrow> World \<Rightarrow> err option \<times> World" where
  "replicateToSecondary ctx ev primaryStoreID secondaryStoreID w =
     (case rpm_ResolveUUID ctx StoreServiceName secondaryStoreID of
        Inl e \<Rightarrow> (Some errRetryable, w)
      | Inr secondaryStoreAddr \<Rightarrow>
          (case clientFactory_GetThriftStoreClient ctx secondaryStoreAddr secondaryStoreID of
             Some e \<Rightarrow> (Some e, log_Error ''Client factory failed to get store client'' w)
           | None \<Rightarrow>
               (let w1 = record_call
                           (StoreReplicateExtent secondaryStoreID (rz_dstID ev)
                              (rz_extentID ev) primaryStoreID) w
                in case storeClient_ReplicateExtent ctx secondaryStoreID (rz_dstID ev)
                          (rz_extentID ev) primaryStoreID of
                     Some e \<Rightarrow>
                       (Some e,
                        log_Error ''Attempt to call ReplicateExtent on storehost failed'' w1)
                   | None \<Rightarrow> (None, w1))))"

text \<open>The loop \<open>for i := 1; i < len(event.storeIDs); i++\<close> over the secondaries.\<close>

function RemoteZone_secondaries ::
  "RemoteZoneExtentCreatedEvent \<Rightarrow> Context \<Rightarrow> string \<Rightarrow> nat \<Rightarrow> World
     \<Rightarrow> (panic + err option) \<times> World" where
  "RemoteZone_secondaries ev ctx primaryStoreID i w =
     (if i < length (rz_storeIDs ev) then
        (case at_index (rz_storeIDs ev) i of
           Inl p \<Rightarrow> (Inl p, w)
         | Inr secondaryStoreID \<Rightarrow>
             (case replicateToSecondary ctx ev primaryStoreID secondaryStoreID w of
                (Some e, w1) \<Rightarrow> (Inr (Some e), w1)
              | (None, w1) \<Rightarrow> RemoteZone_secondaries ev ctx primaryStoreID (i + 1) w1))
      else (Inr None, w))"
  by pat_completeness auto
termination
  by (relation "measure (\<lambda>(ev, ctx, p, i, w). length (rz_storeIDs ev) - i)") auto

declare RemoteZone_secondaries.simps [simp del]

text \<open>\<open>RemoteZoneExtentCreatedEvent.Handle\<close>. \<open>event.storeIDs[0]\<close> is read first, with
  no test of the length before it.\<close>

definition RemoteZoneExtentCreatedEvent_Handle ::
  "RemoteZoneExtentCreatedEvent \<Rightarrow> Context \<Rightarrow> World \<Rightarrow> (panic + err option) \<times> World" where
  "RemoteZoneExtentCreatedEvent_Handle ev ctx w =
     (let w1 = IncCounter RemoteZoneExtentCreatedEventScope ControllerRequests w in
      case at_index (rz_storeIDs ev) 0 of
        Inl p \<Rightarrow> (Inl p, w1)
      | Inr primaryStoreID \<Rightarrow>
          (case replicateToPrimary ctx ev primaryStoreID w1 of
             (Some e, w2) \<Rightarrow> (Inr (Some e), w2)
           | (None, w2) \<Rightarrow> RemoteZone_secondaries ev ctx primaryStoreID 1 w2))"

text \<open>A store is reached when its UUID resolves and the client factory hands out a
  client: these are the stores the replication RPC is sent to.\<close>

definition storeReachable :: "Context \<Rightarrow> string \<Rightarrow> bool" where
  "storeReachable ctx s =
     (case rpm_ResolveUUID ctx StoreServiceName s of
        Inl e \<Rightarrow> False
      | Inr addr \<Rightarrow> clientFactory_GetThriftStoreClient ctx addr s = None)"

text \<open>Two readings of the list of calls: the (store, extent) pairs whose cache entry was
  invalidated, and the stores a \<open>SealExtent\<close> RPC was sent to, both in the order of the
  calls.\<close>

fun invalidations :: "Call list \<Rightarrow> (string \<times> string) list" where
  "invalidations [] = []"
| "invalidations (InvalidateStoreExtentCache s e # cs) = (s, e) # invalidations cs"
| "invalidations (c # cs) = invalidations cs"

fun sealRequests :: "Call list \<Rightarrow> string list" where
  "sealRequests [] = []"
| "sealRequests (StoreSealExtent s a r t p # cs) = s # sealRequests cs"
| "sealRequests (c # cs) = sealRequests cs"


text \<open>The input-host notifications among the events handed to the queue, in the order
  of the offers.\<close>

fun isInputHostNotification :: "Event \<Rightarrow> bool" where
  "isInputHostNotification (EvInputHostNotification n) = True"
| "isInputHostNotification e = False"

definition inputNotifications :: "World \<Rightarrow> Event list" where
  "inputNotifications w = filter isInputHostNotification (offered w)"

text \<open>The input-host notifications the queue has accepted.\<close>

definition inputEnqueued :: "World \<Rightarrow> Event list" where
  "inputEnqueued w = filter isInputHostNotification (enqueued w)"

section \<open>A concrete context and world for the worked examples\<close>

text \<open>In \<open>ctx0\<close> every metadata call fails, no host resolves, the token bucket is empty
  and the event queue is never full; the examples override the fields they need.\<close>

definition ctx0 :: Context where
  "ctx0 =
     \<lparr>localZone = ''zone1'', timeNow = 0,
      mm_ListExtentsByDstIDStatus = (\<lambda>d f. Inl (OtherError ''unavailable'')),
      mm_ListExtentsByInputIDStatus = (\<lambda>h f. Inl (OtherError ''unavailable'')),
      mm_ListExtentsByStoreIDStatus = (\<lambda>h f. Inl (OtherError ''unavailable'')),
      mm_ListConsumerGroupsByDstID = (\<lambda>d. ([], Some (OtherError ''unavailable''))),
      mm_ListExtentsByConsumerGroup = (\<lambda>d c f. Inl (OtherError ''unavailable'')),
      mm_ReadExtentStats = (\<lambda>d e. Inl (OtherError ''unavailable'')),
      mm_SealExtent = (\<lambda>d e. Some (OtherError ''unavailable'')),
      rpm_ResolveUUID = (\<lambda>s u. Inl (OtherError ''unknown host'')),
      clientFactory_GetThriftStoreClient = (\<lambda>a u. None),
      backoff_Retry_SealExtent = (\<lambda>u a r t p. Some (OtherError ''timeout'')),
      storeClient_RemoteReplicateExtent = (\<lambda>s d e. Some (OtherError ''timeout'')),
      storeClient_ReplicateExtent = (\<lambda>s d e p. Some (OtherError ''timeout'')),
      tokenBucket_TryConsume = (\<lambda>n. False),
      tokenBucket_Consume = (\<lambda>n t. False),
      common_IsRemoteZoneExtent = (\<lambda>z l. z \<noteq> [] \<and> z \<noteq> l),
      resultCache_readOutputHosts =
        (\<lambda>c n. \<lparr>cacheHit = False, refreshCache = False,
                 resultCacheEntry = \<lparr>dstType = 0, nExtents = 0, hostIDs = [], expiry = 0\<rparr>\<rparr>),
      eventPipeline_full = (\<lambda>h. False)\<rparr>"

definition w0 :: World where
  "w0 = \<lparr>eventPipeline = [], failed = {||}, inProgress = {||}, resultCache_writes = [],
         calls = [], m3Client = [], log = []\<rparr>"


definition stats_E1 :: "ExtentStatus \<Rightarrow> ExtentStats" where
  "stats_E1 st =
     \<lparr>GetExtent = \<lparr>ExtentUUID = ''E1'', DestinationUUID = ''D1'',
                   StoreUUIDs = [''S1'', ''S2'', ''S3''], InputHostUUID = ''H1'',
                   OriginZone = []\<rparr>,
      GetStatus = st\<rparr>"

definition down_E1 :: "int \<Rightarrow> string list \<Rightarrow> ExtentDownEvent" where
  "down_E1 st stores =
     \<lparr>state = st, sealSeq = 0, dstID = ''D1'', extentID = ''E1'', storeIDs = stores\<rparr>"

definition ctx_read :: "ExtentStatus \<Rightarrow> Context" where
  "ctx_read st = ctx0\<lparr>mm_ReadExtentStats := (\<lambda>d e. Inr (stats_E1 st))\<rparr>"


definition down_failed :: "string \<Rightarrow> ExtentDownEvent" where
  "down_failed x = \<lparr>state = 1, sealSeq = 0, dstID = ''D1'', extentID = x, storeIDs = []\<rparr>"


text \<open>Every store but S9 resolves; \<open>RemoteReplicateExtent\<close> succeeds; \<open>ReplicateExtent\<close>
  times out on the stores given.\<close>

definition ctx_replica :: "string list \<Rightarrow> Context" where
  "ctx_replica failing =
     ctx0\<lparr>rpm_ResolveUUID :=
            (\<lambda>svc u. if u = ''S9'' then Inl (OtherError ''unknown host'')
                      else Inr (u @ '':4240'')),
          storeClient_RemoteReplicateExtent := (\<lambda>s d e. None),
          storeClient_ReplicateExtent :=
            (\<lambda>s d e p. if s \<in> set failing then Some (OtherError ''timeout'') else None)\<rparr>"

text \<open>Every store but S9 resolves; the client factory has no client for S8;
  \<open>RemoteReplicateExtent\<close> succeeds; \<open>ReplicateExtent\<close> succeeds on every store but S1,
  where it answers with the error given.\<close>

definition ctx_replica_err :: "err \<Rightarrow> Context" where
  "ctx_replica_err er =
     ctx0\<lparr>rpm_ResolveUUID :=
            (\<lambda>svc u. if u = ''S9'' then Inl (OtherError ''unknown host'')
                      else Inr (u @ '':4240'')),
          clientFactory_GetThriftStoreClient :=
            (\<lambda>a u. if u = ''S8'' then Some (OtherError ''no client'') else None),
          storeClient_RemoteReplicateExtent := (\<lambda>s d e. None),
          storeClient_ReplicateExtent := (\<lambda>s d e p. if s = ''S1'' then Some er else None)\<rparr>"

text \<open>The clock reads 1000 ns; the cache holds an entry for every consumer group, not
  marked for refresh, with the expiry given.\<close>

definition ctx_cache :: "int \<Rightarrow> Context" where
  "ctx_cache e =
     ctx0\<lparr>timeNow := 1000,
          resultCache_readOutputHosts :=
            (\<lambda>c n. \<lparr>cacheHit = True, refreshCache = False,
                     resultCacheEntry =
                       \<lparr>dstType = 1, nExtents = 4, hostIDs = [''O1''], expiry = e\<rparr>\<rparr>)\<rparr>"

text \<open>Every store but S9 resolves; the seal succeeds on S1 and times out on every other
  store; the token bucket grants a token or not, as given.\<close>

definition ctx_seal :: "bool \<Rightarrow> Context" where
  "ctx_seal token =
     (ctx_replica [])
       \<lparr>backoff_Retry_SealExtent :=
          (\<lambda>u a r t p. if u = ''S1'' then None else Some (OtherError ''timeout'')),
        tokenBucket_TryConsume := (\<lambda>n. token),
        tokenBucket_Consume := (\<lambda>n t. token)\<rparr>"

text \<open>An OPEN extent of destination D1 on an input host, with its zone of origin. The
  local zone of \<open>ctx0\<close> is zone1, and an extent is remote when its zone of origin is
  set and is another zone.\<close>

definition extent_in :: "string \<Rightarrow> string \<Rightarrow> string \<Rightarrow> ExtentStats" where
  "extent_in x host zone =
     \<lparr>GetExtent = \<lparr>ExtentUUID = x, DestinationUUID = ''D1'', StoreUUIDs = [''S1''],
                   InputHostUUID = host, OriginZone = zone\<rparr>,
      GetStatus = ExtentStatus_OPEN\<rparr>"


text \<open>The extent E1 was created on input host H1 for destination D1. The destination
  has OPEN extents on H1 and (two of them) on H2, and one enabled consumer group CG1,
  served by output host O1, whose cache entry expires far in the future. The event
  queue is full or not, as given.\<close>

definition created_E1 :: ExtentCreatedEvent where
  "created_E1 =
     \<lparr>ec_dstID = ''D1'', ec_inHostID = ''H1'', ec_extentID = ''E1'',
      ec_storeIDs = [''S1'', ''S2'', ''S3'']\<rparr>"

definition ctx_created :: "bool \<Rightarrow> Context" where
  "ctx_created full =
     ctx0\<lparr>timeNow := 1000,
          mm_ListExtentsByDstIDStatus :=
            (\<lambda>d f. Inr [extent_in ''E1'' ''H1'' [], extent_in ''E5'' ''H2'' [],
                         extent_in ''E6'' ''H2'' []]),
          mm_ListConsumerGroupsByDstID :=
            (\<lambda>d. ([\<lparr>ConsumerGroupUUID = ''CG1'', Status = ConsumerGroupStatus_ENABLED\<rparr>],
                   None)),
          mm_ListExtentsByConsumerGroup := (\<lambda>d c f. Inr [\<lparr>OutputHostUUID = ''O1''\<rparr>]),
          resultCache_readOutputHosts :=
            (\<lambda>c n. \<lparr>cacheHit = True, refreshCache = False,
                     resultCacheEntry =
                       \<lparr>dstType = 1, nExtents = 4, hostIDs = [''O1''],
                        expiry = 9000000000\<rparr>\<rparr>),
          eventPipeline_full := (\<lambda>h. full)\<rparr>"

lemmas created_defs =
  created_E1_def ctx_created_def ctx0_def w0_def extent_in_def
  ExtentCreatedEvent_Handle_def collectInHostIDs_def notifyInputHostClient_def
  reconfigureAllConsumers_def reconfigureConsumerGroup_def notifyOutputHost_def
  triggerCacheRefreshForCG_def resultCache_write_def int64_add_def
  resultCacheRefreshMaxWaitTime_def Millisecond_def eventPipeline_Add_def
  NewInputHostNotificationEvent_def NewOutputHostNotificationEvent_def
  notifyExtentCreated_def IncCounter_def log_Error_def
  inputNotifications_def offered_def enqueued_def Let_def signed_take_bit_int_eq_self

section \<open>ExtentDownEvent: properties of the three states\<close>

text \<open>
  Claim C2. In the state \<open>checkPrecondition\<close> of \<open>ExtentDownEvent.Handle\<close>: when
  \<open>ReadExtentStats\<close> fails the handler returns \<open>errRetryable\<close>; when it succeeds and
  the status of the extent is not OPEN the handler returns nil, and it has issued no
  store RPC and no metadata mutation (the calls, the tracking sets and the event queue
  are as before); otherwise the store UUIDs of the extent are copied into the event, the
  state becomes \<open>sealExtent\<close>, and the handler goes on from there.
\<close>

theorem checkPrecondition_state:
  assumes "state ev = checkPreconditionState"
  shows "case mm_ReadExtentStats ctx (dstID ev) (extentID ev) of
           Inl e \<Rightarrow>
             (case ExtentDownEvent_Handle ev ctx w of (r, ev1, w1) \<Rightarrow>
                r = Some errRetryable \<and> ev1 = ev \<and> calls w1 = calls w)
         | Inr stats \<Rightarrow>
             if GetStatus stats \<noteq> ExtentStatus_OPEN then
               (case ExtentDownEvent_Handle ev ctx w of (r, ev1, w1) \<Rightarrow>
                  r = None \<and> ev1 = ev \<and> calls w1 = calls w \<and> failed w1 = failed w
                  \<and> inProgress w1 = inProgress w \<and> eventPipeline w1 = eventPipeline w)
             else
               checkPrecondition_case ev ctx
                   (IncCounter ExtentDownEventScope ControllerRequests w) =
                 (NextIteration,
                  ev\<lparr>storeIDs := StoreUUIDs (GetExtent stats), state := sealExtentState\<rparr>,
                  IncCounter ExtentDownEventScope ControllerRequests w)
               \<and> ExtentDownEvent_Handle ev ctx w =
                 ExtentDownEvent_loop False
                   (ev\<lparr>storeIDs := StoreUUIDs (GetExtent stats), state := sealExtentState\<rparr>)
                   ctx (IncCounter ExtentDownEventScope ControllerRequests w)"
  using assms
  by (simp add: ExtentDownEvent_Handle_def ExtentDownEvent_loop.simps [of _ ev]
      checkPrecondition_case_def IncCounter_def log_Error_def Let_def split: sum.splits)

text \<open>The three cases on the extent E1 of destination D1: the read fails; the extent
  is SEALED; the extent is OPEN on the stores S1, S2, S3.\<close>

theorem checkPrecondition_state_witness:
  "fst (ExtentDownEvent_Handle (down_E1 0 []) ctx0 w0) = Some errRetryable
   \<and> ExtentDownEvent_Handle (down_E1 0 []) (ctx_read ExtentStatus_SEALED) w0 =
       (None, down_E1 0 [],
        w0\<lparr>m3Client := [(ExtentDownEventScope, ControllerRequests),
                         (ExtentDownEventScope, ControllerFailures)],
           log := [(LogError,
                    ''ExtentDownEvent: Extent is not in OPEN state, dropping event'')]\<rparr>)
   \<and> checkPrecondition_case (down_E1 0 []) (ctx_read ExtentStatus_OPEN)
         (IncCounter ExtentDownEventScope ControllerRequests w0) =
       (NextIteration, down_E1 1 [''S1'', ''S2'', ''S3''],
        IncCounter ExtentDownEventScope ControllerRequests w0)"
proof -
  have h: "state (down_E1 0 []) = checkPreconditionState"
    by (simp add: down_E1_def state_defs)
  show ?thesis
    using checkPrecondition_state [OF h, where ctx = ctx0 and w = w0]
      checkPrecondition_state [OF h, where ctx = "ctx_read ExtentStatus_SEALED" and w = w0]
      checkPrecondition_state [OF h, where ctx = "ctx_read ExtentStatus_OPEN" and w = w0]
    by (simp add: down_E1_def ctx0_def ctx_read_def stats_E1_def w0_def state_defs
        ExtentDownEvent_Handle_def ExtentDownEvent_loop.simps checkPrecondition_case_def
        IncCounter_def log_Error_def Let_def split: prod.splits)
qed



section \<open>ExtentDownEvent.Done and the size of the failed set\<close>

text \<open>
  Claim C4 says that \<open>Done\<close> inserts the extent only while the failed set is under its
  capacity, so that the set never has more than \<open>maxFailedExtentSealSetSize\<close> members,
  and that \<open>Done\<close> always removes the extent from the in-progress set. The second part
  holds. The first does not: the test is \<open>Size() > maxFailedExtentSealSetSize\<close>, so a
  set that holds exactly \<open>maxFailedExtentSealSetSize\<close> extents still takes a new one
  and then has one member more than the constant allows.
\<close>

theorem Done_exceeds_capacity:
  assumes "int (fcard (failed w)) = maxFailedExtentSealSetSize"
    and "extentID ev |\<notin>| failed w" and "e \<noteq> None"
  shows "int (fcard (failed (ExtentDownEvent_Done maxFailedExtentSealSetSize ev w e)))
           = maxFailedExtentSealSetSize + 1
         \<and> extentID ev |\<notin>| inProgress (ExtentDownEvent_Done maxFailedExtentSealSetSize ev w e)"
  using assms by (simp add: ExtentDownEvent_Done_def Let_def fcard_finsert_disjoint)

text \<open>With the constant at 2: two failed seals fill the empty set, and the third failed
  seal, of E3, leaves three extents in it.\<close>

theorem Done_exceeds_capacity_witness:
  "failed (ExtentDownEvent_Done 2 (down_failed ''E2'')
        (ExtentDownEvent_Done 2 (down_failed ''E1'') w0 (Some errRetryable))
        (Some errRetryable)) = {|''E2'', ''E1''|}
   \<and> fcard (failed (ExtentDownEvent_Done 2 (down_failed ''E3'')
         (w0\<lparr>failed := {|''E2'', ''E1''|}, inProgress := {|''E3''|}\<rparr>)
         (Some errRetryable))) = 3
   \<and> inProgress (ExtentDownEvent_Done 2 (down_failed ''E3'')
         (w0\<lparr>failed := {|''E2'', ''E1''|}, inProgress := {|''E3''|}\<rparr>)
         (Some errRetryable)) = {||}"
proof -
  have h1: "int (fcard (failed (w0\<lparr>failed := {|''E2'', ''E1''|},
                                   inProgress := {|''E3''|}\<rparr>))) = 2"
    by (simp add: fcard_finsert_if)
  have h2: "extentID (down_failed ''E3'')
              |\<notin>| failed (w0\<lparr>failed := {|''E2'', ''E1''|}, inProgress := {|''E3''|}\<rparr>)"
    by (simp add: down_failed_def)
  have h3: "Some errRetryable \<noteq> None" by simp
  show ?thesis
    using Done_exceeds_capacity [OF h1 h2 h3]
    by (simp add: ExtentDownEvent_Done_def Let_def w0_def down_failed_def
        fcard_finsert_if fcard_fempty log_Error_def)
qed

section \<open>RemoteZoneExtentCreatedEvent: order of the replication calls\<close>

text \<open>The answer of one attempt does not depend on the world it starts from, and an
  attempt adds at most its one RPC to the calls.\<close>

lemma replicateToSecondary_fst:
  "fst (replicateToSecondary ctx ev p s w) = fst (replicateToSecondary ctx ev p s w')"
  by (simp add: replicateToSecondary_def Let_def split: sum.splits option.splits)

lemma replicateToSecondary_calls:
  "calls (snd (replicateToSecondary ctx ev p s w)) =
     calls w @ (if storeReachable ctx s
                then [StoreReplicateExtent s (rz_dstID ev) (rz_extentID ev) p] else [])"
  by (simp add: replicateToSecondary_def storeReachable_def Let_def record_call_def
      log_Error_def split: sum.splits option.splits)

lemma replicateToSecondary_ok_reachable:
  "fst (replicateToSecondary ctx ev p s w) = None \<Longrightarrow> storeReachable ctx s"
  by (simp add: replicateToSecondary_def storeReachable_def Let_def
      split: sum.splits option.splits)

lemma replicateToPrimary_calls:
  "calls (snd (replicateToPrimary ctx ev p w)) =
     calls w @ (if storeReachable ctx p
                then [StoreRemoteReplicateExtent p (rz_dstID ev) (rz_extentID ev)] else [])"
  by (simp add: replicateToPrimary_def storeReachable_def Let_def record_call_def
      log_Error_def split: sum.splits option.splits)

lemma replicateToPrimary_fst:
  "fst (replicateToPrimary ctx ev p w) = fst (replicateToPrimary ctx ev p w')"
  by (simp add: replicateToPrimary_def Let_def split: sum.splits option.splits)

lemma replicateToPrimary_ok_reachable:
  "fst (replicateToPrimary ctx ev p w) = None \<Longrightarrow> storeReachable ctx p"
  by (simp add: replicateToPrimary_def storeReachable_def Let_def
      split: sum.splits option.splits)

lemma RemoteZone_secondaries_no_panic:
  "\<not> isl (fst (RemoteZone_secondaries ev ctx p i w))"
proof (induction ev ctx p i w rule: RemoteZone_secondaries.induct)
  case (1 ev ctx p i w)
  show ?case
  proof (cases "i < length (rz_storeIDs ev)")
    case False
    then show ?thesis by (simp add: RemoteZone_secondaries.simps [of ev ctx p i w])
  next
    case True
    then have at: "at_index (rz_storeIDs ev) i = Inr (rz_storeIDs ev ! i)"
      by (simp add: at_index_def)
    obtain r w1 where rs: "replicateToSecondary ctx ev p (rz_storeIDs ev ! i) w = (r, w1)"
      by (cases "replicateToSecondary ctx ev p (rz_storeIDs ev ! i) w")
    show ?thesis
    proof (cases r)
      case None
      with "1.IH" [OF True at rs [symmetric]] True at rs show ?thesis
        by (simp add: RemoteZone_secondaries.simps [of ev ctx p i w])
    next
      case (Some e)
      with True at rs show ?thesis
        by (simp add: RemoteZone_secondaries.simps [of ev ctx p i w])
    qed
  qed
qed

lemma RemoteZone_secondaries_char:
  "i \<le> length (rz_storeIDs ev) \<Longrightarrow>
   RemoteZone_secondaries ev ctx p i w = (r, w') \<Longrightarrow>
   r = Inr (case dropWhile (\<lambda>s. fst (replicateToSecondary ctx ev p s wa) = None)
                   (drop i (rz_storeIDs ev)) of
              [] \<Rightarrow> None
            | s # rest \<Rightarrow> fst (replicateToSecondary ctx ev p s wa))
   \<and> calls w' = calls w @
       map (\<lambda>s. StoreReplicateExtent s (rz_dstID ev) (rz_extentID ev) p)
         (takeWhile (\<lambda>s. fst (replicateToSecondary ctx ev p s wa) = None)
            (drop i (rz_storeIDs ev))
          @ filter (storeReachable ctx)
              (take 1 (dropWhile (\<lambda>s. fst (replicateToSecondary ctx ev p s wa) = None)
                         (drop i (rz_storeIDs ev)))))"
proof (induction ev ctx p i w arbitrary: r w' rule: RemoteZone_secondaries.induct)
  case (1 ev ctx p i w)
  show ?case
  proof (cases "i < length (rz_storeIDs ev)")
    case False
    then have "RemoteZone_secondaries ev ctx p i w = (Inr None, w)"
      by (simp add: RemoteZone_secondaries.simps [of ev ctx p i w])
    with "1.prems" False show ?thesis by simp
  next
    case True
    let ?s = "rz_storeIDs ev ! i"
    have at: "at_index (rz_storeIDs ev) i = Inr ?s"
      using True by (simp add: at_index_def)
    have dr: "drop i (rz_storeIDs ev) = ?s # drop (i + 1) (rz_storeIDs ev)"
      using True by (simp add: Cons_nth_drop_Suc)
    obtain r1 w1 where rs: "replicateToSecondary ctx ev p ?s w = (r1, w1)"
      by (cases "replicateToSecondary ctx ev p ?s w")
    have r1: "fst (replicateToSecondary ctx ev p ?s wa) = r1"
      using rs replicateToSecondary_fst [of ctx ev p ?s wa w] by simp
    have c1: "calls w1 = calls w @ (if storeReachable ctx ?s
                then [StoreReplicateExtent ?s (rz_dstID ev) (rz_extentID ev) p] else [])"
      using rs replicateToSecondary_calls [of ctx ev p ?s w] by simp
    show ?thesis
    proof (cases r1)
      case (Some e)
      with "1.prems" True at rs have "r = Inr (Some e)" "w' = w1"
        by (simp_all add: RemoteZone_secondaries.simps [of ev ctx p i w])
      with Some r1 c1 dr show ?thesis by simp
    next
      case None
      with "1.prems" True at rs
      have rec: "RemoteZone_secondaries ev ctx p (i + 1) w1 = (r, w')"
        by (simp add: RemoteZone_secondaries.simps [of ev ctx p i w])
      have le: "i + 1 \<le> length (rz_storeIDs ev)" using True by simp
      have reach: "storeReachable ctx ?s"
        using None r1 replicateToSecondary_ok_reachable [of ctx ev p ?s wa] by simp
      from "1.IH" [OF True at rs [symmetric] None le rec] None r1 c1 dr reach
      show ?thesis by simp
    qed
  qed
qed

text \<open>The handler in terms of its two kinds of attempt: the attempt on the primary
  decides whether the loop over the secondaries is entered, and the loop stops at the
  first secondary whose attempt fails.\<close>

lemma RemoteZone_replication_steps:
  assumes "rz_storeIDs ev = p # ss"
  shows "fst (replicateToPrimary ctx ev p w) =
           (case rpm_ResolveUUID ctx StoreServiceName p of
              Inl x \<Rightarrow> Some errRetryable
            | Inr addr \<Rightarrow>
                (case clientFactory_GetThriftStoreClient ctx addr p of
                   Some e \<Rightarrow> Some e
                 | None \<Rightarrow>
                     storeClient_RemoteReplicateExtent ctx p (rz_dstID ev) (rz_extentID ev)))
         \<and> (case RemoteZoneExtentCreatedEvent_Handle ev ctx w of (r, w') \<Rightarrow>
              (case fst (replicateToPrimary ctx ev p w) of
                 Some e \<Rightarrow>
                   r = Inr (Some e)
                   \<and> calls w' = calls w @
                       (if storeReachable ctx p
                        then [StoreRemoteReplicateExtent p (rz_dstID ev) (rz_extentID ev)]
                        else [])
               | None \<Rightarrow>
                   r = Inr (case dropWhile (\<lambda>s. fst (replicateToSecondary ctx ev p s w) = None) ss of
                              [] \<Rightarrow> None
                            | s # rest \<Rightarrow> fst (replicateToSecondary ctx ev p s w))
                   \<and> calls w' = calls w @
                       StoreRemoteReplicateExtent p (rz_dstID ev) (rz_extentID ev) #
                       map (\<lambda>s. StoreReplicateExtent s (rz_dstID ev) (rz_extentID ev) p)
                         (takeWhile (\<lambda>s. fst (replicateToSecondary ctx ev p s w) = None) ss
                          @ filter (storeReachable ctx)
                              (take 1 (dropWhile
                                 (\<lambda>s. fst (replicateToSecondary ctx ev p s w) = None) ss)))))"
proof -
  let ?w1 = "IncCounter RemoteZoneExtentCreatedEventScope ControllerRequests w"
  have first: "fst (replicateToPrimary ctx ev p w) =
           (case rpm_ResolveUUID ctx StoreServiceName p of
              Inl x \<Rightarrow> Some errRetryable
            | Inr addr \<Rightarrow>
                (case clientFactory_GetThriftStoreClient ctx addr p of
                   Some e \<Rightarrow> Some e
                 | None \<Rightarrow>
                     storeClient_RemoteReplicateExtent ctx p (rz_dstID ev) (rz_extentID ev)))"
    by (simp add: replicateToPrimary_def Let_def split: sum.splits option.splits)
  have at: "at_index (rz_storeIDs ev) 0 = Inr p"
    using assms by (simp add: at_index_def)
  have cw1: "calls ?w1 = calls w" by (simp add: IncCounter_def)
  obtain r1 w2 where rp: "replicateToPrimary ctx ev p ?w1 = (r1, w2)"
    by (cases "replicateToPrimary ctx ev p ?w1")
  have r1: "fst (replicateToPrimary ctx ev p w) = r1"
    using rp replicateToPrimary_fst [of ctx ev p w ?w1] by simp
  have c2: "calls w2 = calls w @ (if storeReachable ctx p
              then [StoreRemoteReplicateExtent p (rz_dstID ev) (rz_extentID ev)] else [])"
    using rp replicateToPrimary_calls [of ctx ev p ?w1] cw1 by simp
  obtain r w' where h: "RemoteZoneExtentCreatedEvent_Handle ev ctx w = (r, w')"
    by (cases "RemoteZoneExtentCreatedEvent_Handle ev ctx w")
  have second: "case fst (replicateToPrimary ctx ev p w) of
                 Some e \<Rightarrow>
                   r = Inr (Some e)
                   \<and> calls w' = calls w @
                       (if storeReachable ctx p
                        then [StoreRemoteReplicateExtent p (rz_dstID ev) (rz_extentID ev)]
                        else [])
               | None \<Rightarrow>
                   r = Inr (case dropWhile (\<lambda>s. fst (replicateToSecondary ctx ev p s w) = None) ss of
                              [] \<Rightarrow> None
                            | s # rest \<Rightarrow> fst (replicateToSecondary ctx ev p s w))
                   \<and> calls w' = calls w @
                       StoreRemoteReplicateExtent p (rz_dstID ev) (rz_extentID ev) #
                       map (\<lambda>s. StoreReplicateExtent s (rz_dstID ev) (rz_extentID ev) p)
                         (takeWhile (\<lambda>s. fst (replicateToSecondary ctx ev p s w) = None) ss
                          @ filter (storeReachable ctx)
                              (take 1 (dropWhile
                                 (\<lambda>s. fst (replicateToSecondary ctx ev p s w) = None) ss)))"
  proof (cases r1)
    case (Some e)
    with h at rp have "r = Inr (Some e)" "w' = w2"
      by (simp_all add: RemoteZoneExtentCreatedEvent_Handle_def Let_def)
    with Some r1 c2 show ?thesis by simp
  next
    case None
    with h at rp have rec: "RemoteZone_secondaries ev ctx p 1 w2 = (r, w')"
      by (simp add: RemoteZoneExtentCreatedEvent_Handle_def Let_def)
    have le: "1 \<le> length (rz_storeIDs ev)" using assms by simp
    have reach: "storeReachable ctx p"
      using None r1 replicateToPrimary_ok_reachable [of ctx ev p w] by simp
    from RemoteZone_secondaries_char [OF le rec, where wa = w] None r1 c2 reach assms
    show ?thesis by simp
  qed
  from first second h show ?thesis by simp
qed

text \<open>What an attempt on a secondary answers, read off the collaborators.\<close>

lemma replicateToSecondary_answer:
  "fst (replicateToSecondary ctx ev p s w) =
     (case rpm_ResolveUUID ctx StoreServiceName s of
        Inl x \<Rightarrow> Some errRetryable
      | Inr addr \<Rightarrow>
          (case clientFactory_GetThriftStoreClient ctx addr s of
             Some e \<Rightarrow> Some e
           | None \<Rightarrow> storeClient_ReplicateExtent ctx s (rz_dstID ev) (rz_extentID ev) p))"
  by (simp add: replicateToSecondary_def Let_def split: sum.splits option.splits)

lemma replicateToPrimary_answer:
  "fst (replicateToPrimary ctx ev p w) =
     (case rpm_ResolveUUID ctx StoreServiceName p of
        Inl x \<Rightarrow> Some errRetryable
      | Inr addr \<Rightarrow>
          (case clientFactory_GetThriftStoreClient ctx addr p of
             Some e \<Rightarrow> Some e
           | None \<Rightarrow> storeClient_RemoteReplicateExtent ctx p (rz_dstID ev) (rz_extentID ev)))"
  by (simp add: replicateToPrimary_def Let_def split: sum.splits option.splits)

text \<open>
  Claim C8. Take an event whose list of stores is \<open>p # ss\<close>, with destination \<open>dst\<close> and
  extent \<open>ext\<close>. The outcome of the steps on a store is given by the collaborators
  alone: \<open>errRetryable\<close> when the store does not resolve, the error of the client
  factory when it hands out no client, and otherwise the answer of the store to the
  RPC, which is \<open>RemoteReplicateExtent(dst, ext)\<close> for the primary (\<open>primaryErr\<close>) and
  \<open>ReplicateExtent(dst, ext, source p)\<close> for a secondary \<open>s\<close> (\<open>secondaryErr s\<close>); a store
  is \<open>reached\<close> when it resolves and has a client. When \<open>primaryErr\<close> is an error, the
  handler returns that error, and its only call is \<open>RemoteReplicateExtent\<close> on \<open>p\<close>, made
  when \<open>p\<close> was reached: no secondary is called. When the primary succeeds, the calls of
  the handler are \<open>RemoteReplicateExtent\<close> on \<open>p\<close> followed by \<open>ReplicateExtent\<close> with
  source \<open>p\<close> on the secondaries in the order of the list, up to and including the
  first secondary with an error (the call on it is made when it was reached); the
  handler returns the error of that secondary, whichever error it is, and calls no
  later secondary; it returns nil when no secondary has an error.
\<close>

theorem RemoteZone_ordered_replication:
  assumes "rz_storeIDs ev = p # ss"
  shows "(let dst = rz_dstID ev; ext = rz_extentID ev;
              reached = (\<lambda>s. case rpm_ResolveUUID ctx StoreServiceName s of
                                Inl x \<Rightarrow> False
                              | Inr addr \<Rightarrow>
                                  clientFactory_GetThriftStoreClient ctx addr s = None);
              primaryErr =
                (case rpm_ResolveUUID ctx StoreServiceName p of
                   Inl x \<Rightarrow> Some errRetryable
                 | Inr addr \<Rightarrow>
                     (case clientFactory_GetThriftStoreClient ctx addr p of
                        Some e \<Rightarrow> Some e
                      | None \<Rightarrow> storeClient_RemoteReplicateExtent ctx p dst ext));
              secondaryErr =
                (\<lambda>s. case rpm_ResolveUUID ctx StoreServiceName s of
                        Inl x \<Rightarrow> Some errRetryable
                      | Inr addr \<Rightarrow>
                          (case clientFactory_GetThriftStoreClient ctx addr s of
                             Some e \<Rightarrow> Some e
                           | None \<Rightarrow> storeClient_ReplicateExtent ctx s dst ext p))
          in case RemoteZoneExtentCreatedEvent_Handle ev ctx w of (r, w') \<Rightarrow>
               (case primaryErr of
                  Some e \<Rightarrow>
                    r = Inr (Some e)
                    \<and> calls w' = calls w @
                        (if reached p then [StoreRemoteReplicateExtent p dst ext] else [])
                | None \<Rightarrow>
                    r = Inr (case dropWhile (\<lambda>s. secondaryErr s = None) ss of
                               [] \<Rightarrow> None
                             | s # rest \<Rightarrow> secondaryErr s)
                    \<and> calls w' = calls w @
                        StoreRemoteReplicateExtent p dst ext #
                        map (\<lambda>s. StoreReplicateExtent s dst ext p)
                          (takeWhile (\<lambda>s. secondaryErr s = None) ss
                           @ filter reached
                               (take 1 (dropWhile (\<lambda>s. secondaryErr s = None) ss)))))"
  using conjunct2 [OF RemoteZone_replication_steps [OF assms, where ctx = ctx and w = w]]
  unfolding Let_def replicateToPrimary_answer replicateToSecondary_answer storeReachable_def
  by simp

text \<open>In each example the primary is P and \<open>RemoteReplicateExtent\<close> on it succeeds.
  Secondaries S1, S2, S3 with a time-out on S2: S1 and S2 are called, the time-out is
  returned, S3 is not called. Secondaries S1, S2 where \<open>ReplicateExtent\<close> on S1 answers
  \<open>errRetryable\<close>, or an \<open>IllegalStateError\<close>: that error is returned and S2 is not
  called. Secondaries S2, S8, S3 with no client for S8: the error of the client
  factory is returned after the call on S2, and S3 is not called. Secondaries S2, S9,
  S3 with S9 unknown: \<open>errRetryable\<close> after the call on S2. Secondaries S2, S3, both
  fine: nil after both calls. Stores S9, S1 with the primary S9 unknown:
  \<open>errRetryable\<close> and no call at all.\<close>

theorem RemoteZone_ordered_replication_witness:
  "(case RemoteZoneExtentCreatedEvent_Handle
           \<lparr>rz_dstID = ''D1'', rz_extentID = ''E1'',
            rz_storeIDs = [''P'', ''S1'', ''S2'', ''S3'']\<rparr>
           (ctx_replica [''S2'']) w0 of
      (r, w') \<Rightarrow>
        r = Inr (Some (OtherError ''timeout''))
        \<and> calls w' = [StoreRemoteReplicateExtent ''P'' ''D1'' ''E1'',
                       StoreReplicateExtent ''S1'' ''D1'' ''E1'' ''P'',
                       StoreReplicateExtent ''S2'' ''D1'' ''E1'' ''P''])
   \<and> (case RemoteZoneExtentCreatedEvent_Handle
           \<lparr>rz_dstID = ''D1'', rz_extentID = ''E1'', rz_storeIDs = [''P'', ''S1'', ''S2'']\<rparr>
           (ctx_replica_err errRetryable) w0 of
      (r, w') \<Rightarrow>
        r = Inr (Some errRetryable)
        \<and> calls w' = [StoreRemoteReplicateExtent ''P'' ''D1'' ''E1'',
                       StoreReplicateExtent ''S1'' ''D1'' ''E1'' ''P''])
   \<and> (case RemoteZoneExtentCreatedEvent_Handle
           \<lparr>rz_dstID = ''D1'', rz_extentID = ''E1'', rz_storeIDs = [''P'', ''S1'', ''S2'']\<rparr>
           (ctx_replica_err (IllegalStateError ''sealed'')) w0 of
      (r, w') \<Rightarrow>
        r = Inr (Some (IllegalStateError ''sealed''))
        \<and> calls w' = [StoreRemoteReplicateExtent ''P'' ''D1'' ''E1'',
                       StoreReplicateExtent ''S1'' ''D1'' ''E1'' ''P''])
   \<and> (case RemoteZoneExtentCreatedEvent_Handle
           \<lparr>rz_dstID = ''D1'', rz_extentID = ''E1'',
            rz_storeIDs = [''P'', ''S2'', ''S8'', ''S3'']\<rparr>
           (ctx_replica_err errRetryable) w0 of
      (r, w') \<Rightarrow>
        r = Inr (Some (OtherError ''no client''))
        \<and> calls w' = [StoreRemoteReplicateExtent ''P'' ''D1'' ''E1'',
                       StoreReplicateExtent ''S2'' ''D1'' ''E1'' ''P''])
   \<and> (case RemoteZoneExtentCreatedEvent_Handle
           \<lparr>rz_dstID = ''D1'', rz_extentID = ''E1'',
            rz_storeIDs = [''P'', ''S2'', ''S9'', ''S3'']\<rparr>
           (ctx_replica_err errRetryable) w0 of
      (r, w') \<Rightarrow>
        r = Inr (Some errRetryable)
        \<and> calls w' = [StoreRemoteReplicateExtent ''P'' ''D1'' ''E1'',
                       StoreReplicateExtent ''S2'' ''D1'' ''E1'' ''P''])
   \<and> (case RemoteZoneExtentCreatedEvent_Handle
           \<lparr>rz_dstID = ''D1'', rz_extentID = ''E1'', rz_storeIDs = [''P'', ''S2'', ''S3'']\<rparr>
           (ctx_replica_err errRetryable) w0 of
      (r, w') \<Rightarrow>
        r = Inr None
        \<and> calls w' = [StoreRemoteReplicateExtent ''P'' ''D1'' ''E1'',
                       StoreReplicateExtent ''S2'' ''D1'' ''E1'' ''P'',
                       StoreReplicateExtent ''S3'' ''D1'' ''E1'' ''P''])
   \<and> (case RemoteZoneExtentCreatedEvent_Handle
           \<lparr>rz_dstID = ''D1'', rz_extentID = ''E1'', rz_storeIDs = [''S9'', ''S1'']\<rparr>
           (ctx_replica []) w0 of
      (r, w') \<Rightarrow> r = Inr (Some errRetryable) \<and> calls w' = [])"
proof -
  have h: "rz_storeIDs \<lparr>rz_dstID = ''D1'', rz_extentID = ''E1'', rz_storeIDs = q # qs\<rparr>
             = q # qs" for q qs
    by simp
  show ?thesis
    using
      RemoteZone_ordered_replication
        [OF h [of "''P''" "[''S1'', ''S2'', ''S3'']"],
           where ctx = "ctx_replica [''S2'']" and w = w0]
      RemoteZone_ordered_replication
        [OF h [of "''P''" "[''S1'', ''S2'']"],
           where ctx = "ctx_replica_err errRetryable" and w = w0]
      RemoteZone_ordered_replication
        [OF h [of "''P''" "[''S1'', ''S2'']"],
           where ctx = "ctx_replica_err (IllegalStateError ''sealed'')" and w = w0]
      RemoteZone_ordered_replication
        [OF h [of "''P''" "[''S2'', ''S8'', ''S3'']"],
           where ctx = "ctx_replica_err errRetryable" and w = w0]
      RemoteZone_ordered_replication
        [OF h [of "''P''" "[''S2'', ''S9'', ''S3'']"],
           where ctx = "ctx_replica_err errRetryable" and w = w0]
      RemoteZone_ordered_replication
        [OF h [of "''P''" "[''S2'', ''S3'']"],
           where ctx = "ctx_replica_err errRetryable" and w = w0]
      RemoteZone_ordered_replication
        [OF h [of "''S9''" "[''S1'']"],
           where ctx = "ctx_replica []" and w = w0]
    by (simp add: ctx_replica_def ctx_replica_err_def ctx0_def w0_def Let_def
        split: prod.splits)
qed

text \<open>
  Claim C10. The handler reads \<open>storeIDs[0]\<close> before any test of the length: for an
  event built by \<open>NewRemoteZoneExtentCreatedEvent\<close> with an empty list of stores it
  panics with an index out of range, and for every non-empty list no index access of
  the handler is out of range (it panics exactly when the list is empty).
\<close>

theorem RemoteZone_index_panic:
  "fst (RemoteZoneExtentCreatedEvent_Handle (NewRemoteZoneExtentCreatedEvent dst ext [])
          ctx w) = Inl IndexOutOfRange
   \<and> (isl (fst (RemoteZoneExtentCreatedEvent_Handle
                  (NewRemoteZoneExtentCreatedEvent dst ext stores) ctx w))
        \<longleftrightarrow> stores = [])"
proof -
  have a: "fst (RemoteZoneExtentCreatedEvent_Handle (NewRemoteZoneExtentCreatedEvent dst ext [])
          ctx w) = Inl IndexOutOfRange"
    by (simp add: RemoteZoneExtentCreatedEvent_Handle_def NewRemoteZoneExtentCreatedEvent_def
        at_index_def Let_def)
  have b: "\<not> isl (fst (RemoteZoneExtentCreatedEvent_Handle
                  (NewRemoteZoneExtentCreatedEvent dst ext stores) ctx w))"
    if "stores \<noteq> []"
    using that RemoteZone_secondaries_no_panic
    by (simp add: RemoteZoneExtentCreatedEvent_Handle_def NewRemoteZoneExtentCreatedEvent_def
        at_index_def Let_def split: prod.splits option.splits)
  from a b show ?thesis by (cases "stores = []") auto
qed


theorem RemoteZone_index_panic_witness:
  "fst (RemoteZoneExtentCreatedEvent_Handle
          (NewRemoteZoneExtentCreatedEvent ''D1'' ''E1'' []) (ctx_replica []) w0)
     = Inl IndexOutOfRange
   \<and> \<not> isl (fst (RemoteZoneExtentCreatedEvent_Handle
          (NewRemoteZoneExtentCreatedEvent ''D1'' ''E1'' [''P'', ''S1'']) (ctx_replica []) w0))"
  using RemoteZone_index_panic [of "''D1''" "''E1''" "ctx_replica []" w0 "[''P'', ''S1'']"]
  by simp

section \<open>The result cache refresh trigger at the boundary\<close>

text \<open>
  Claim C9 says that an entry whose expiry is within \<open>now + 500 ms\<close> is not rewritten,
  and that only an expiry further away than \<open>now + 500 ms\<close> is. The test in the source
  is \<open>result.expiry < deadline\<close>: an entry whose expiry is exactly \<open>now + 500 ms\<close>
  is rewritten. With the clock at 1000 ns and the expiry at 500001000 ns the cache is
  written.
\<close>

theorem triggerCacheRefresh_boundary_counterexample:
  "expiry (resultCacheEntry (resultCache_readOutputHosts (ctx_cache 500001000) ''CG1'' 1000))
     \<le> timeNow (ctx_cache 500001000) + resultCacheRefreshMaxWaitTime
   \<and> resultCache_writes (triggerCacheRefreshForCG (ctx_cache 500001000) w0 ''CG1'') =
       [(''CG1'', \<lparr>rp_dstType = 1, rp_nExtents = 4, rp_hostIDs = [''O1''],
                   rp_expiry = 1000\<rparr>)]"
  by (simp add: ctx_cache_def ctx0_def w0_def triggerCacheRefreshForCG_def
      resultCache_write_def int64_add_def resultCacheRefreshMaxWaitTime_def Millisecond_def
      Let_def signed_take_bit_int_eq_self)

text \<open>
  Claim C9, amended. On a cache miss, and on an entry already marked for refresh, the
  cache is not written; an entry whose expiry is earlier than \<open>now + 500 ms\<close> is not
  written either; an entry whose expiry is \<open>now + 500 ms\<close> or later is rewritten once,
  with expiry \<open>now\<close> and the \<open>dstType\<close>, \<open>nExtents\<close> and \<open>hostIDs\<close> of the entry read.
  The clock is such that \<open>now + 500 ms\<close> fits in an \<open>int64\<close>.
\<close>

theorem triggerCacheRefresh_rewrites:
  assumes "- (2 ^ 63) \<le> timeNow ctx + resultCacheRefreshMaxWaitTime"
    and "timeNow ctx + resultCacheRefreshMaxWaitTime < 2 ^ 63"
  shows "triggerCacheRefreshForCG ctx w cgID =
     (let result = resultCache_readOutputHosts ctx cgID (timeNow ctx);
          entry = resultCacheEntry result
      in if cacheHit result \<and> \<not> refreshCache result
            \<and> timeNow ctx + resultCacheRefreshMaxWaitTime \<le> expiry entry
         then w\<lparr>resultCache_writes := resultCache_writes w @
                  [(cgID, \<lparr>rp_dstType = dstType entry, rp_nExtents = nExtents entry,
                           rp_hostIDs = hostIDs entry, rp_expiry = timeNow ctx\<rparr>)]\<rparr>
         else w)"
proof -
  have "int64_add (timeNow ctx) resultCacheRefreshMaxWaitTime
          = timeNow ctx + resultCacheRefreshMaxWaitTime"
    unfolding int64_add_def using assms by (rule signed_take_bit_int_eq_self)
  then show ?thesis
    by (auto simp add: triggerCacheRefreshForCG_def resultCache_write_def Let_def)
qed

text \<open>The boundary (rewritten), one nanosecond before it (not written), and a cache
  miss (not written).\<close>

theorem triggerCacheRefresh_rewrites_witness:
  "resultCache_writes (triggerCacheRefreshForCG (ctx_cache 500001000) w0 ''CG1'') =
       [(''CG1'', \<lparr>rp_dstType = 1, rp_nExtents = 4, rp_hostIDs = [''O1''],
                   rp_expiry = 1000\<rparr>)]
   \<and> triggerCacheRefreshForCG (ctx_cache 500000999) w0 ''CG1'' = w0
   \<and> triggerCacheRefreshForCG (ctx0\<lparr>timeNow := 1000\<rparr>) w0 ''CG1'' = w0"
proof -
  have a: "- (2 ^ 63) \<le> timeNow (ctx_cache e) + resultCacheRefreshMaxWaitTime" for e
    by (simp add: ctx_cache_def resultCacheRefreshMaxWaitTime_def Millisecond_def)
  have b: "timeNow (ctx_cache e) + resultCacheRefreshMaxWaitTime < 2 ^ 63" for e
    by (simp add: ctx_cache_def resultCacheRefreshMaxWaitTime_def Millisecond_def)
  have c: "- (2 ^ 63) \<le> timeNow (ctx0\<lparr>timeNow := 1000\<rparr>) + resultCacheRefreshMaxWaitTime"
    by (simp add: resultCacheRefreshMaxWaitTime_def Millisecond_def)
  have d: "timeNow (ctx0\<lparr>timeNow := 1000\<rparr>) + resultCacheRefreshMaxWaitTime < 2 ^ 63"
    by (simp add: resultCacheRefreshMaxWaitTime_def Millisecond_def)
  show ?thesis
    using triggerCacheRefresh_rewrites [OF a b, of 500001000 w0 "''CG1''"]
      triggerCacheRefresh_rewrites [OF a b, of 500000999 w0 "''CG1''"]
      triggerCacheRefresh_rewrites [OF c d, of w0 "''CG1''"]
    by (simp add: ctx_cache_def ctx0_def w0_def resultCacheRefreshMaxWaitTime_def
        Millisecond_def Let_def)
qed

section \<open>ExtentDownEvent: the sealExtent state\<close>

text \<open>The outcome of sealing on one store does not depend on the world it starts from;
  a goroutine adds one invalidation when, and only when, its seal succeeded; the counter
  is the number of successes, as a 32-bit integer; \<open>stores\<close> has one entry for each
  store UUID of the event that resolves.\<close>

lemma invalidations_append:
  "invalidations (xs @ ys) = invalidations xs @ invalidations ys"
  by (induction xs rule: invalidations.induct) simp_all

lemma sealRequests_append:
  "sealRequests (xs @ ys) = sealRequests xs @ sealRequests ys"
  by (induction xs rule: sealRequests.induct) simp_all

lemma sealExtentOnStore_fst:
  "fst (sealExtentOnStore ctx w s a x q isRetry sc) = fst (sealExtentOnStore ctx w' s a x q isRetry sc)"
  by (simp add: sealExtentOnStore_def Let_def split: option.splits)

lemma sealExtentOnStore_ok_client:
  "fst (sealExtentOnStore ctx w s a x q isRetry sc) = None
     \<Longrightarrow> clientFactory_GetThriftStoreClient ctx a s = None"
  by (simp add: sealExtentOnStore_def Let_def split: option.splits)

lemma sealExtentOnStore_calls:
  "invalidations (calls (snd (sealExtentOnStore ctx w s a x q isRetry sc)))
     = invalidations (calls w)
   \<and> sealRequests (calls (snd (sealExtentOnStore ctx w s a x q isRetry sc)))
     = sealRequests (calls w)
       @ (if clientFactory_GetThriftStoreClient ctx a s = None then [s] else [])"
  by (simp add: sealExtentOnStore_def Let_def record_call_def log_Error_def
      invalidations_append sealRequests_append split: option.splits)

lemma sealGoroutine_step:
  assumes "sealGoroutine ctx isRetry ev (s, a) (n, w) = (n', w')"
  shows "invalidations (calls w') = invalidations (calls w) @
           (if fst (sealExtentOnStore ctx wa s a (extentID ev) (sealSeq ev) isRetry
                      ExtentDownEventScope) = None
            then [(s, extentID ev)] else [])
         \<and> sealRequests (calls w') = sealRequests (calls w) @
           (if clientFactory_GetThriftStoreClient ctx a s = None then [s] else [])
         \<and> n' = (if fst (sealExtentOnStore ctx wa s a (extentID ev) (sealSeq ev) isRetry
                          ExtentDownEventScope) = None
                 then atomic_AddInt32 n 1 else n)"
proof -
  obtain r w1 where so: "sealExtentOnStore ctx w s a (extentID ev) (sealSeq ev) isRetry
      ExtentDownEventScope = (r, w1)"
    by (cases "sealExtentOnStore ctx w s a (extentID ev) (sealSeq ev) isRetry
      ExtentDownEventScope")
  have r: "fst (sealExtentOnStore ctx wa s a (extentID ev) (sealSeq ev) isRetry
                      ExtentDownEventScope) = r"
    using so sealExtentOnStore_fst [of ctx wa s a "extentID ev" "sealSeq ev" isRetry
        ExtentDownEventScope w] by simp
  have c: "invalidations (calls w1) = invalidations (calls w)"
    "sealRequests (calls w1) = sealRequests (calls w)
       @ (if clientFactory_GetThriftStoreClient ctx a s = None then [s] else [])"
    using so sealExtentOnStore_calls [of ctx w s a "extentID ev" "sealSeq ev" isRetry
        ExtentDownEventScope] by simp_all
  show ?thesis
    using assms so r c
    by (cases r)
       (auto simp add: sealGoroutine_def invalidateStoreExtentCache_def record_call_def
          invalidations_append sealRequests_append)
qed

lemma fold_sealGoroutine:
  "fold (sealGoroutine ctx isRetry ev) ss (n, w) = (n', w') \<Longrightarrow>
   invalidations (calls w') = invalidations (calls w) @
     map (\<lambda>(s, a). (s, extentID ev))
       (filter (\<lambda>(s, a). fst (sealExtentOnStore ctx wa s a (extentID ev) (sealSeq ev) isRetry
                      ExtentDownEventScope) = None) ss)
   \<and> sealRequests (calls w') = sealRequests (calls w) @
       map fst (filter (\<lambda>(s, a). clientFactory_GetThriftStoreClient ctx a s = None) ss)
   \<and> n' = ((\<lambda>m. atomic_AddInt32 m 1) ^^
            length (filter (\<lambda>(s, a). fst (sealExtentOnStore ctx wa s a (extentID ev)
                      (sealSeq ev) isRetry ExtentDownEventScope) = None) ss)) n"
proof (induction ss arbitrary: n w)
  case Nil
  then show ?case by simp
next
  case (Cons kv ss)
  obtain s a where kv: "kv = (s, a)" by (cases kv)
  obtain n1 w1 where st: "sealGoroutine ctx isRetry ev (s, a) (n, w) = (n1, w1)"
    by (cases "sealGoroutine ctx isRetry ev (s, a) (n, w)")
  from Cons.prems kv st have rest: "fold (sealGoroutine ctx isRetry ev) ss (n1, w1) = (n', w')"
    by simp
  from Cons.IH [OF rest] sealGoroutine_step [OF st, of wa] kv
  show ?case by (auto simp add: funpow_Suc_right simp del: funpow.simps)
qed

lemma count_int32:
  "((\<lambda>m. atomic_AddInt32 m 1) ^^ k) 0 = signed_take_bit 31 (int k)"
proof (induction k)
  case 0
  show ?case by simp
next
  case (Suc k)
  have "signed_take_bit 31 (signed_take_bit 31 (int k) + 1)
          = signed_take_bit 31 (signed_take_bit 31 (int k) + signed_take_bit 31 (1::int))"
    by (simp add: signed_take_bit_int_eq_self)
  also have "\<dots> = signed_take_bit 31 (int k + 1)"
    by (simp only: signed_take_bit_add)
  finally show ?case using Suc by (simp add: atomic_AddInt32_def add.commute)
qed

lemma resolve_fold:
  "distinct (map fst acc) \<Longrightarrow>
   distinct (map fst (fold (\<lambda>s stores. case rpm_ResolveUUID ctx StoreServiceName s of
                         Inl e \<Rightarrow> stores
                       | Inr addr \<Rightarrow> AList.update s addr stores) ids acc))
   \<and> map_of (fold (\<lambda>s stores. case rpm_ResolveUUID ctx StoreServiceName s of
                         Inl e \<Rightarrow> stores
                       | Inr addr \<Rightarrow> AList.update s addr stores) ids acc)
     = (\<lambda>s. if s \<in> set ids then
               (case rpm_ResolveUUID ctx StoreServiceName s of
                  Inl e \<Rightarrow> map_of acc s | Inr addr \<Rightarrow> Some addr)
             else map_of acc s)"
proof (induction ids arbitrary: acc)
  case Nil
  then show ?case by simp
next
  case (Cons x ids)
  show ?case
  proof (cases "rpm_ResolveUUID ctx StoreServiceName x")
    case (Inl e)
    with Cons.IH [OF Cons.prems] show ?thesis by (auto simp: fun_eq_iff)
  next
    case (Inr addr)
    have d: "distinct (map fst (AList.update x addr acc))"
      using Cons.prems by (rule distinct_update)
    from Cons.IH [OF d] Inr show ?thesis
      by (auto simp: fun_eq_iff update_conv' split: sum.splits)
  qed
qed

lemma resolveStores_char:
  "distinct (map fst (resolveStores ctx ids))
   \<and> set (resolveStores ctx ids) =
       {(s, a). s \<in> set ids \<and> rpm_ResolveUUID ctx StoreServiceName s = Inr a}"
proof -
  have d: "distinct (map fst (resolveStores ctx ids))"
    and m: "map_of (resolveStores ctx ids)
     = (\<lambda>s. if s \<in> set ids then
               (case rpm_ResolveUUID ctx StoreServiceName s of
                  Inl e \<Rightarrow> None | Inr addr \<Rightarrow> Some addr)
             else None)"
    using resolve_fold [of "[]" ctx ids]
    by (auto simp add: resolveStores_def fun_eq_iff split: sum.splits)
  have "(s, a) \<in> set (resolveStores ctx ids) \<longleftrightarrow>
          s \<in> set ids \<and> rpm_ResolveUUID ctx StoreServiceName s = Inr a" for s a
  proof -
    have "(s, a) \<in> set (resolveStores ctx ids) \<longleftrightarrow> map_of (resolveStores ctx ids) s = Some a"
      using d by simp
    also have "\<dots> \<longleftrightarrow> s \<in> set ids \<and> rpm_ResolveUUID ctx StoreServiceName s = Inr a"
      by (simp add: m split: sum.splits)
    finally show ?thesis .
  qed
  with d show ?thesis by auto
qed


text \<open>
  Claim C1. In the state \<open>sealExtent\<close> of \<open>ExtentDownEvent.Handle\<close>, with \<open>stores\<close> the
  stores of the event that resolve (each once): when none resolves the handler returns
  \<open>errRetryable\<close>; when the token is denied (by the non-blocking \<open>TryConsume(1)\<close> if
  \<open>isRetry\<close> is false, by the blocking \<open>Consume(1, 10 s)\<close> if it is true) the handler
  returns \<open>errRetryable\<close>; in both cases no call has been made. Otherwise the seal is
  sent to every resolved store a client was obtained for, the cache is invalidated for
  exactly the stores whose seal succeeded, the handler returns \<open>errRetryable\<close> when no
  seal succeeded, and it goes on to \<open>updateMetadata\<close> only when one did (and always
  then, the count of successes being below \<open>2^31\<close>). \<open>isRetry\<close> is fixed on entry of
  \<open>Handle\<close>: it is true when the handler is entered in the state \<open>sealExtent\<close>, and
  false when it is entered in \<open>checkPrecondition\<close> and reaches \<open>sealExtent\<close> in the
  same call.
\<close>

theorem sealExtent_state:
  assumes "state ev = sealExtentState"
  shows
  "(let stores = resolveStores ctx (storeIDs ev);
        denied = (if isRetry then \<not> tokenBucket_Consume ctx 1 (10 * Second)
                  else \<not> tokenBucket_TryConsume ctx 1);
        sealed = filter (\<lambda>(s, a). fst (sealExtentOnStore ctx w s a (extentID ev) (sealSeq ev)
                                         isRetry ExtentDownEventScope) = None) stores
    in distinct (map fst stores)
       \<and> set stores =
           {(s, a). s \<in> set (storeIDs ev) \<and> rpm_ResolveUUID ctx StoreServiceName s = Inr a}
       \<and> (case sealExtent_case isRetry ev ctx w of (fl, ev1, w1) \<Rightarrow>
            if stores = [] then
              fl = Return (Some errRetryable) \<and> ev1 = ev \<and> calls w1 = calls w
            else if denied then
              fl = Return (Some errRetryable) \<and> ev1 = ev \<and> calls w1 = calls w
            else
              sealRequests (calls w1) = sealRequests (calls w) @
                map fst (filter (\<lambda>(s, a). clientFactory_GetThriftStoreClient ctx a s = None)
                           stores)
              \<and> invalidations (calls w1) = invalidations (calls w) @
                  map (\<lambda>(s, a). (s, extentID ev)) sealed
              \<and> (sealed = [] \<longrightarrow> fl = Return (Some errRetryable) \<and> ev1 = ev)
              \<and> (fl = NextIteration \<longrightarrow>
                   sealed \<noteq> [] \<and> ev1 = ev\<lparr>state := updateMetadataState\<rparr>)
              \<and> (sealed \<noteq> [] \<and> length sealed < 2 ^ 31 \<longrightarrow> fl = NextIteration)))
   \<and> ExtentDownEvent_loop isRetry ev ctx w =
       (case sealExtent_case isRetry ev ctx w of
          (Return r, ev1, w1) \<Rightarrow> (r, ev1, w1)
        | (NextIteration, ev1, w1) \<Rightarrow> ExtentDownEvent_loop isRetry ev1 ctx w1)
   \<and> ExtentDownEvent_Handle ev ctx w =
       ExtentDownEvent_loop True ev ctx (IncCounter ExtentDownEventScope ControllerRequests w)"
proof -
  let ?stores = "resolveStores ctx (storeIDs ev)"
  let ?ok = "\<lambda>(s, a). fst (sealExtentOnStore ctx w s a (extentID ev) (sealSeq ev)
                                         isRetry ExtentDownEventScope) = None"
  let ?sealed = "filter ?ok ?stores"
  obtain n' w' where f: "fold (sealGoroutine ctx isRetry ev) ?stores (0, w) = (n', w')"
    by (cases "fold (sealGoroutine ctx isRetry ev) ?stores (0, w)")
  note fs = fold_sealGoroutine [OF f, where wa = w]
  have n': "n' = signed_take_bit 31 (int (length ?sealed))"
    using fs count_int32 by simp
  have n0: "n' < 1" if "?sealed = []"
    using that n' by simp
  have n1: "\<not> n' < 1" if "?sealed \<noteq> []" "length ?sealed < 2 ^ 31"
  proof -
    have "signed_take_bit 31 (int (length ?sealed)) = int (length ?sealed)"
      using that(2) by (intro signed_take_bit_int_eq_self) simp_all
    with n' that(1) show ?thesis by (cases ?sealed) simp_all
  qed
  have n2: "?sealed \<noteq> []" if "\<not> n' < 1"
    using that n0 by blast
  have step: "case sealExtent_case isRetry ev ctx w of (fl, ev1, w1) \<Rightarrow>
            if ?stores = [] then
              fl = Return (Some errRetryable) \<and> ev1 = ev \<and> calls w1 = calls w
            else if (if isRetry then \<not> tokenBucket_Consume ctx 1 (10 * Second)
                  else \<not> tokenBucket_TryConsume ctx 1) then
              fl = Return (Some errRetryable) \<and> ev1 = ev \<and> calls w1 = calls w
            else
              sealRequests (calls w1) = sealRequests (calls w) @
                map fst (filter (\<lambda>(s, a). clientFactory_GetThriftStoreClient ctx a s = None)
                           ?stores)
              \<and> invalidations (calls w1) = invalidations (calls w) @
                  map (\<lambda>(s, a). (s, extentID ev)) ?sealed
              \<and> (?sealed = [] \<longrightarrow> fl = Return (Some errRetryable) \<and> ev1 = ev)
              \<and> (fl = NextIteration \<longrightarrow>
                   ?sealed \<noteq> [] \<and> ev1 = ev\<lparr>state := updateMetadataState\<rparr>)
              \<and> (?sealed \<noteq> [] \<and> length ?sealed < 2 ^ 31 \<longrightarrow> fl = NextIteration)"
  proof (cases "?stores = []")
    case True
    then show ?thesis
      by (simp add: sealExtent_case_def Let_def IncCounter_def log_Error_def)
  next
    case ne: False
    show ?thesis
    proof (cases "if isRetry then \<not> tokenBucket_Consume ctx 1 (10 * Second)
                  else \<not> tokenBucket_TryConsume ctx 1")
      case True
      with ne show ?thesis
        by (simp add: sealExtent_case_def Let_def IncCounter_def split: if_splits)
    next
      case ok: False
      show ?thesis
      proof (cases "n' < 1")
        case True
        with ne ok f fs n1 show ?thesis
          by (auto simp add: sealExtent_case_def Let_def IncCounter_def log_Error_def
              split: if_splits)
      next
        case False
        with ne ok f fs n2 show ?thesis
          by (auto simp add: sealExtent_case_def Let_def log_Info_def split: if_splits)
      qed
    qed
  qed
  have loop: "ExtentDownEvent_loop isRetry ev ctx w =
       (case sealExtent_case isRetry ev ctx w of
          (Return r, ev1, w1) \<Rightarrow> (r, ev1, w1)
        | (NextIteration, ev1, w1) \<Rightarrow> ExtentDownEvent_loop isRetry ev1 ctx w1)"
    using assms by (simp add: ExtentDownEvent_loop.simps [of isRetry ev ctx w] state_defs)
  have handle: "ExtentDownEvent_Handle ev ctx w =
       ExtentDownEvent_loop True ev ctx (IncCounter ExtentDownEventScope ControllerRequests w)"
    using assms by (simp add: ExtentDownEvent_Handle_def state_defs)
  from resolveStores_char [of ctx "storeIDs ev"] step loop handle
  show ?thesis by (simp add: Let_def)
qed


text \<open>Stores S1, S2, S9, S3, S1 on a first attempt with a token: S9 does not resolve,
  the seal is sent to S1, S2 and S3 once each, succeeds on S1 only, and the cache is
  invalidated for S1 only. Without a token: \<open>errRetryable\<close> and no call. Store S9
  alone: \<open>errRetryable\<close> and no call. Stores S2, S3: both seals fail, \<open>errRetryable\<close>
  and no invalidation.\<close>

theorem sealExtent_state_witness:
  "(case sealExtent_case False (down_E1 1 [''S1'', ''S2'', ''S9'', ''S3'', ''S1''])
           (ctx_seal True) w0 of
      (fl, ev1, w1) \<Rightarrow>
        fl = NextIteration
        \<and> ev1 = down_E1 2 [''S1'', ''S2'', ''S9'', ''S3'', ''S1'']
        \<and> sealRequests (calls w1) = [''S1'', ''S2'', ''S3'']
        \<and> invalidations (calls w1) = [(''S1'', ''E1'')])
   \<and> (case sealExtent_case False (down_E1 1 [''S1'', ''S2'']) (ctx_seal False) w0 of
      (fl, ev1, w1) \<Rightarrow> fl = Return (Some errRetryable) \<and> calls w1 = [])
   \<and> (case sealExtent_case True (down_E1 1 [''S9'']) (ctx_seal True) w0 of
      (fl, ev1, w1) \<Rightarrow> fl = Return (Some errRetryable) \<and> calls w1 = [])
   \<and> (case sealExtent_case True (down_E1 1 [''S2'', ''S3'']) (ctx_seal True) w0 of
      (fl, ev1, w1) \<Rightarrow>
        fl = Return (Some errRetryable) \<and> sealRequests (calls w1) = [''S2'', ''S3'']
        \<and> invalidations (calls w1) = [])"
proof -
  have h: "state (down_E1 1 xs) = sealExtentState" for xs
    by (simp add: down_E1_def state_defs)
  show ?thesis
    using sealExtent_state [OF h, where ctx = "ctx_seal True" and w = w0
        and isRetry = False and xs1 = "[''S1'', ''S2'', ''S9'', ''S3'', ''S1'']"]
      sealExtent_state [OF h, where ctx = "ctx_seal False" and w = w0
        and isRetry = False and xs1 = "[''S1'', ''S2'']"]
      sealExtent_state [OF h, where ctx = "ctx_seal True" and w = w0
        and isRetry = True and xs1 = "[''S9'']"]
      sealExtent_state [OF h, where ctx = "ctx_seal True" and w = w0
        and isRetry = True and xs1 = "[''S2'', ''S3'']"]
    by (simp add: Let_def down_E1_def ctx_seal_def ctx_replica_def ctx0_def w0_def
        resolveStores_def sealExtentOnStore_def state_defs split: prod.splits)
qed

section \<open>InputHostFailedEvent and StoreHostFailedEvent: the events raised\<close>






section \<open>ExtentCreatedEvent: what is handed to the event queue\<close>

text \<open>The CLIENT loop offers one notification for each key it ranges over, and each is
  accepted when the queue is not full; \<open>reconfigureAllConsumers\<close> offers no input-host
  notification; the keys left in
  \<open>inHostIDs\<close> after the \<open>delete\<close> are the input hosts of the listed extents other
  than the originating host, each once.\<close>

lemma fold_keeps:
  assumes "\<And>x w. g (f x w) = g w"
  shows "g (fold f xs w) = g w"
  using assms by (induction xs arbitrary: w) simp_all

lemma notifyInputHostClient_offered:
  "offered (notifyInputHostClient ctx ev k w) = offered w @
     [NewInputHostNotificationEvent (ec_dstID ev) k (ec_extentID ev) (ec_storeIDs ev)
        notifyExtentCreated (ec_extentID ev) NotificationType_CLIENT]"
  by (simp add: notifyInputHostClient_def eventPipeline_Add_def offered_def Let_def
      log_Error_def IncCounter_def)

lemma fold_notifyInputHostClient_offered:
  "offered (fold (notifyInputHostClient ctx ev) ks w) = offered w @
     map (\<lambda>k. NewInputHostNotificationEvent (ec_dstID ev) k (ec_extentID ev) (ec_storeIDs ev)
                 notifyExtentCreated (ec_extentID ev) NotificationType_CLIENT) ks"
  by (induction ks arbitrary: w) (simp_all add: notifyInputHostClient_offered)

lemma notifyOutputHost_inputNotifications:
  "inputNotifications (notifyOutputHost ctx dst cg reason rc k w) = inputNotifications w"
  by (simp add: notifyOutputHost_def eventPipeline_Add_def offered_def Let_def
      log_Error_def inputNotifications_def NewOutputHostNotificationEvent_def)

lemma triggerCacheRefreshForCG_inputNotifications:
  "inputNotifications (triggerCacheRefreshForCG ctx w cg) = inputNotifications w"
  by (simp add: triggerCacheRefreshForCG_def resultCache_write_def Let_def
      inputNotifications_def offered_def)

lemma reconfigureConsumerGroup_inputNotifications:
  "inputNotifications (reconfigureConsumerGroup ctx dst reason rc cgd w) = inputNotifications w"
  by (simp add: reconfigureConsumerGroup_def Let_def triggerCacheRefreshForCG_inputNotifications
      fold_keeps [where g = inputNotifications, OF notifyOutputHost_inputNotifications]
      split: sum.splits)

lemma reconfigureAllConsumers_inputNotifications:
  "inputNotifications (reconfigureAllConsumers ctx w dst ext reason rc sc) = inputNotifications w"
proof -
  have "inputNotifications (log_Error m (IncCounter s c w)) = inputNotifications w" for m s c
    by (simp add: inputNotifications_def offered_def log_Error_def IncCounter_def)
  then show ?thesis
    by (simp add: reconfigureAllConsumers_def Let_def
        fold_keeps [where g = inputNotifications, OF reconfigureConsumerGroup_inputNotifications]
        split: prod.splits)
qed

lemma notifyInputHostClient_eventPipeline:
  "\<not> eventPipeline_full ctx (eventPipeline w) \<Longrightarrow>
   eventPipeline (notifyInputHostClient ctx ev k w) = eventPipeline w @
     [(NewInputHostNotificationEvent (ec_dstID ev) k (ec_extentID ev) (ec_storeIDs ev)
         notifyExtentCreated (ec_extentID ev) NotificationType_CLIENT, True)]"
  by (simp add: notifyInputHostClient_def eventPipeline_Add_def Let_def)

lemma fold_notifyInputHostClient_eventPipeline:
  "\<forall>h. \<not> eventPipeline_full ctx h \<Longrightarrow>
   eventPipeline (fold (notifyInputHostClient ctx ev) ks w) = eventPipeline w @
     map (\<lambda>k. (NewInputHostNotificationEvent (ec_dstID ev) k (ec_extentID ev)
                  (ec_storeIDs ev) notifyExtentCreated (ec_extentID ev)
                  NotificationType_CLIENT, True)) ks"
  by (induction ks arbitrary: w) (simp_all add: notifyInputHostClient_eventPipeline)

lemma notifyOutputHost_inputEnqueued:
  "inputEnqueued (notifyOutputHost ctx dst cg reason rc k w) = inputEnqueued w"
  by (simp add: notifyOutputHost_def eventPipeline_Add_def enqueued_def Let_def
      log_Error_def inputEnqueued_def NewOutputHostNotificationEvent_def)

lemma triggerCacheRefreshForCG_inputEnqueued:
  "inputEnqueued (triggerCacheRefreshForCG ctx w cg) = inputEnqueued w"
  by (simp add: triggerCacheRefreshForCG_def resultCache_write_def Let_def
      inputEnqueued_def enqueued_def)

lemma reconfigureConsumerGroup_inputEnqueued:
  "inputEnqueued (reconfigureConsumerGroup ctx dst reason rc cgd w) = inputEnqueued w"
  by (simp add: reconfigureConsumerGroup_def Let_def triggerCacheRefreshForCG_inputEnqueued
      fold_keeps [where g = inputEnqueued, OF notifyOutputHost_inputEnqueued]
      split: sum.splits)

lemma reconfigureAllConsumers_inputEnqueued:
  "inputEnqueued (reconfigureAllConsumers ctx w dst ext reason rc sc) = inputEnqueued w"
proof -
  have "inputEnqueued (log_Error m (IncCounter s c w)) = inputEnqueued w" for m s c
    by (simp add: inputEnqueued_def enqueued_def log_Error_def IncCounter_def)
  then show ?thesis
    by (simp add: reconfigureAllConsumers_def Let_def
        fold_keeps [where g = inputEnqueued, OF reconfigureConsumerGroup_inputEnqueued]
        split: prod.splits)
qed

lemma fold_update_keys:
  "distinct (map fst acc) \<Longrightarrow>
   distinct (map fst (fold (\<lambda>x m. AList.update (f x) v m) xs acc))
   \<and> set (map fst (fold (\<lambda>x m. AList.update (f x) v m) xs acc)) = set (map fst acc) \<union> f ` set xs"
proof (induction xs arbitrary: acc)
  case Nil
  then show ?case by simp
next
  case (Cons x xs)
  have d: "distinct (map fst (AList.update (f x) v acc))"
    using Cons.prems by (rule distinct_update)
  from Cons.IH [OF d] show ?case by (auto simp add: update_keys)
qed

lemma collectInHostIDs_keys:
  assumes "mm_ListExtentsByDstIDStatus ctx (ec_dstID ev) [ExtentStatus_OPEN] = Inr stats"
  shows "distinct (map fst (AList.delete (ec_inHostID ev) (collectInHostIDs ctx ev)))
         \<and> set (map fst (AList.delete (ec_inHostID ev) (collectInHostIDs ctx ev)))
             = (\<lambda>st. InputHostUUID (GetExtent st)) ` set stats - {ec_inHostID ev}"
proof -
  have d0: "distinct (map fst (AList.update (ec_inHostID ev) True []))" by simp
  from fold_update_keys [OF d0, of "\<lambda>st. InputHostUUID (GetExtent st)" True stats] assms
  have "distinct (map fst (collectInHostIDs ctx ev))"
    and "set (map fst (collectInHostIDs ctx ev))
           = insert (ec_inHostID ev) ((\<lambda>st. InputHostUUID (GetExtent st)) ` set stats)"
    by (simp_all add: collectInHostIDs_def Let_def)
  then show ?thesis
    by (auto simp add: delete_keys distinct_removeAll)
qed

text \<open>
  Claim C5 says that for every \<open>ExtentCreatedEvent\<close> whose listing of OPEN extents
  succeeds, the handler enqueues one ALL notification for the originating input host
  and one CLIENT notification for each other distinct input host of the listed
  extents. \<open>Add\<close> does not block: it refuses an event when the queue is full. The
  extent E1 was created on H1, the listing succeeds with OPEN extents on H1, H2 and
  H2, and the queue is full: the handler returns nil, the ALL notification for H1 is
  the only event it has offered, and nothing is enqueued, neither the ALL notification
  for H1 nor a CLIENT notification for H2.
\<close>

theorem ExtentCreated_fanout_counterexample:
  "mm_ListExtentsByDstIDStatus (ctx_created True) (ec_dstID created_E1) [ExtentStatus_OPEN] =
     Inr [extent_in ''E1'' ''H1'' [], extent_in ''E5'' ''H2'' [], extent_in ''E6'' ''H2'' []]
   \<and> fst (ExtentCreatedEvent_Handle created_E1 (ctx_created True) w0) = None
   \<and> offered (snd (ExtentCreatedEvent_Handle created_E1 (ctx_created True) w0)) =
       [EvInputHostNotification
          \<lparr>ihn_dstID = ''D1'', ihn_inputHostID = ''H1'', ihn_extentID = ''E1'',
           ihn_storeIDs = [''S1'', ''S2'', ''S3''], ihn_reason = ''ExtentCreated'',
           ihn_reasonContext = ''E1'', ihn_notificationType = NotificationType_ALL\<rparr>]
   \<and> enqueued (snd (ExtentCreatedEvent_Handle created_E1 (ctx_created True) w0)) = []"
  by (simp add: created_defs)

text \<open>
  Claim C5, amended. For an \<open>ExtentCreatedEvent\<close> whose listing of OPEN extents
  succeeds and whose ALL notification the queue accepts, the handler returns nil and
  the input-host notifications it hands to the queue are exactly: one notification of
  type ALL for the originating input host \<open>inHostID\<close>, followed by one notification of
  type CLIENT for each host of a list \<open>others\<close> that has no repetition and holds exactly
  the input hosts of the listed extents other than \<open>inHostID\<close>; each notification
  carries the destination, the extent and the stores of the event, the reason
  \<open>ExtentCreated\<close> and the extent as its context. So no host gets both kinds and no
  host gets two notifications. When the queue is not full at any offer, these
  notifications are exactly the input-host notifications enqueued by the call.
\<close>

theorem ExtentCreated_fanout:
  assumes "mm_ListExtentsByDstIDStatus ctx (ec_dstID ev) [ExtentStatus_OPEN] = Inr stats"
    and "\<not> eventPipeline_full ctx (eventPipeline w)"
  shows "(let notification =
                (\<lambda>host kind. EvInputHostNotification
                   \<lparr>ihn_dstID = ec_dstID ev, ihn_inputHostID = host,
                    ihn_extentID = ec_extentID ev, ihn_storeIDs = ec_storeIDs ev,
                    ihn_reason = ''ExtentCreated'', ihn_reasonContext = ec_extentID ev,
                    ihn_notificationType = kind\<rparr>)
          in case ExtentCreatedEvent_Handle ev ctx w of (r, w') \<Rightarrow>
               r = None \<and>
               (\<exists>others. distinct others
                  \<and> set others =
                      (\<lambda>st. InputHostUUID (GetExtent st)) ` set stats - {ec_inHostID ev}
                  \<and> inputNotifications w' = inputNotifications w @
                      notification (ec_inHostID ev) NotificationType_ALL #
                      map (\<lambda>k. notification k NotificationType_CLIENT) others
                  \<and> ((\<forall>h. \<not> eventPipeline_full ctx h) \<longrightarrow>
                       inputEnqueued w' = inputEnqueued w @
                         notification (ec_inHostID ev) NotificationType_ALL #
                         map (\<lambda>k. notification k NotificationType_CLIENT) others)))"
proof -
  let ?all = "NewInputHostNotificationEvent (ec_dstID ev) (ec_inHostID ev) (ec_extentID ev)
                 (ec_storeIDs ev) notifyExtentCreated (ec_extentID ev) NotificationType_ALL"
  let ?client = "\<lambda>k. NewInputHostNotificationEvent (ec_dstID ev) k (ec_extentID ev)
                          (ec_storeIDs ev) notifyExtentCreated (ec_extentID ev)
                          NotificationType_CLIENT"
  let ?others = "map fst (AList.delete (ec_inHostID ev) (collectInHostIDs ctx ev))"
  let ?w1 = "IncCounter ExtentCreatedEventScope ControllerRequests w"
  let ?w3 = "?w1\<lparr>eventPipeline := eventPipeline ?w1 @ [(?all, True)]\<rparr>"
  let ?w4 = "fold (notifyInputHostClient ctx ev) ?others ?w3"
  let ?w5 = "reconfigureAllConsumers ctx ?w4 (ec_dstID ev) (ec_extentID ev)
               notifyExtentCreated (ec_extentID ev) ExtentCreatedEventScope"
  have h: "ExtentCreatedEvent_Handle ev ctx w = (None, ?w5)"
    using assms
    by (simp add: ExtentCreatedEvent_Handle_def Let_def eventPipeline_Add_def IncCounter_def)
  have o3: "offered ?w3 = offered w @ [?all]"
    by (simp add: offered_def IncCounter_def)
  have o4: "offered ?w4 = offered w @ ?all # map ?client ?others"
    using fold_notifyInputHostClient_offered [of ctx ev ?others ?w3] o3 by simp
  have i4: "inputNotifications ?w4 = inputNotifications w @ ?all # map ?client ?others"
    unfolding inputNotifications_def o4
    by (simp add: NewInputHostNotificationEvent_def filter_map comp_def)
  have inp: "inputNotifications ?w5 = inputNotifications w @ ?all # map ?client ?others"
    using i4 by (simp add: reconfigureAllConsumers_inputNotifications)
  have enq: "inputEnqueued ?w5 = inputEnqueued w @ ?all # map ?client ?others"
    if never: "\<forall>h. \<not> eventPipeline_full ctx h"
  proof -
    have "eventPipeline ?w4 =
            eventPipeline w @ (?all, True) # map (\<lambda>k. (?client k, True)) ?others"
      using fold_notifyInputHostClient_eventPipeline [OF never, of ev ?others ?w3]
      by (simp add: IncCounter_def)
    then have "inputEnqueued ?w4 = inputEnqueued w @ ?all # map ?client ?others"
      by (simp add: inputEnqueued_def enqueued_def NewInputHostNotificationEvent_def
          filter_map comp_def)
    then show ?thesis by (simp add: reconfigureAllConsumers_inputEnqueued)
  qed
  have keys: "distinct ?others"
    "set ?others = (\<lambda>st. InputHostUUID (GetExtent st)) ` set stats - {ec_inHostID ev}"
    using collectInHostIDs_keys [OF assms(1)] by simp_all
  have names:
    "?all = EvInputHostNotification
              \<lparr>ihn_dstID = ec_dstID ev, ihn_inputHostID = ec_inHostID ev,
               ihn_extentID = ec_extentID ev, ihn_storeIDs = ec_storeIDs ev,
               ihn_reason = ''ExtentCreated'', ihn_reasonContext = ec_extentID ev,
               ihn_notificationType = NotificationType_ALL\<rparr>"
    "?client = (\<lambda>k. EvInputHostNotification
              \<lparr>ihn_dstID = ec_dstID ev, ihn_inputHostID = k,
               ihn_extentID = ec_extentID ev, ihn_storeIDs = ec_storeIDs ev,
               ihn_reason = ''ExtentCreated'', ihn_reasonContext = ec_extentID ev,
               ihn_notificationType = NotificationType_CLIENT\<rparr>)"
    by (simp_all add: NewInputHostNotificationEvent_def notifyExtentCreated_def)
  show ?thesis
    unfolding Let_def h
    using keys inp enq unfolding names
    by (auto intro!: exI [of _ ?others])
qed

text \<open>OPEN extents on H1, H2, H2, and a queue that is never full: nil is returned, ALL
  for H1 and one CLIENT for H2 are offered, and both are enqueued.\<close>

theorem ExtentCreated_fanout_witness:
  "fst (ExtentCreatedEvent_Handle created_E1 (ctx_created False) w0) = None
   \<and> inputNotifications (snd (ExtentCreatedEvent_Handle created_E1 (ctx_created False) w0)) =
     [EvInputHostNotification
        \<lparr>ihn_dstID = ''D1'', ihn_inputHostID = ''H1'', ihn_extentID = ''E1'',
         ihn_storeIDs = [''S1'', ''S2'', ''S3''], ihn_reason = ''ExtentCreated'',
         ihn_reasonContext = ''E1'', ihn_notificationType = NotificationType_ALL\<rparr>,
      EvInputHostNotification
        \<lparr>ihn_dstID = ''D1'', ihn_inputHostID = ''H2'', ihn_extentID = ''E1'',
         ihn_storeIDs = [''S1'', ''S2'', ''S3''], ihn_reason = ''ExtentCreated'',
         ihn_reasonContext = ''E1'', ihn_notificationType = NotificationType_CLIENT\<rparr>]
   \<and> inputEnqueued (snd (ExtentCreatedEvent_Handle created_E1 (ctx_created False) w0)) =
     [EvInputHostNotification
        \<lparr>ihn_dstID = ''D1'', ihn_inputHostID = ''H1'', ihn_extentID = ''E1'',
         ihn_storeIDs = [''S1'', ''S2'', ''S3''], ihn_reason = ''ExtentCreated'',
         ihn_reasonContext = ''E1'', ihn_notificationType = NotificationType_ALL\<rparr>,
      EvInputHostNotification
        \<lparr>ihn_dstID = ''D1'', ihn_inputHostID = ''H2'', ihn_extentID = ''E1'',
         ihn_storeIDs = [''S1'', ''S2'', ''S3''], ihn_reason = ''ExtentCreated'',
         ihn_reasonContext = ''E1'', ihn_notificationType = NotificationType_CLIENT\<rparr>]"
proof -
  have h: "mm_ListExtentsByDstIDStatus (ctx_created False) (ec_dstID created_E1)
             [ExtentStatus_OPEN] =
           Inr [extent_in ''E1'' ''H1'' [], extent_in ''E5'' ''H2'' [],
                extent_in ''E6'' ''H2'' []]"
    by (simp add: ctx_created_def)
  have q: "\<not> eventPipeline_full (ctx_created False) (eventPipeline w0)"
    by (simp add: ctx_created_def)
  show ?thesis
    using ExtentCreated_fanout [OF h q]
    by (simp add: created_defs inputEnqueued_def)
qed

text \<open>
  Claim C6 says that a refused \<open>Add\<close> is counted and logged and that processing goes
  on: after a refused ALL notification the CLIENT notifications and
  \<open>reconfigureAllConsumers\<close> are still performed. The handler does count and log the
  refusal and does return nil, but it returns right there (\<open>return nil\<close> in the branch
  of the refused \<open>Add\<close>): the refused ALL notification is the only offer made in the
  call, and the result cache is not touched, so neither the CLIENT loop nor
  \<open>reconfigureAllConsumers\<close> has run.
\<close>

theorem ExtentCreated_stops_when_ALL_refused:
  assumes "eventPipeline_full ctx (eventPipeline w)"
  shows "case ExtentCreatedEvent_Handle ev ctx w of (r, w') \<Rightarrow>
     r = None
     \<and> eventPipeline w' = eventPipeline w @
         [(NewInputHostNotificationEvent (ec_dstID ev) (ec_inHostID ev) (ec_extentID ev)
             (ec_storeIDs ev) notifyExtentCreated (ec_extentID ev) NotificationType_ALL,
           False)]
     \<and> resultCache_writes w' = resultCache_writes w
     \<and> last (m3Client w') = (ExtentCreatedEventScope, ControllerFailures)
     \<and> last (log w') =
         (LogError, ''ExtentCreatedEvent: Failed to enqueue InputHostNotificationEvent'')"
  using assms
  by (simp add: ExtentCreatedEvent_Handle_def Let_def eventPipeline_Add_def
      IncCounter_def log_Error_def split: sum.splits)


text \<open>The queue is full. The handler returns nil with the one refused offer, one
  failure counted and one line logged. Run on the world it returns, the CLIENT loop
  offers a notification for H2 and \<open>reconfigureAllConsumers\<close> rewrites the cache entry
  of CG1: this is what the handler has left out.\<close>

theorem ExtentCreated_stops_when_ALL_refused_witness:
  "ExtentCreatedEvent_Handle created_E1 (ctx_created True) w0 =
     (None,
      w0\<lparr>eventPipeline :=
            [(NewInputHostNotificationEvent ''D1'' ''H1'' ''E1'' [''S1'', ''S2'', ''S3'']
                ''ExtentCreated'' ''E1'' NotificationType_ALL, False)],
         m3Client := [(ExtentCreatedEventScope, ControllerRequests),
                      (ExtentCreatedEventScope, ControllerFailures)],
         log := [(LogError,
                  ''ExtentCreatedEvent: Failed to enqueue InputHostNotificationEvent'')]\<rparr>)
   \<and> offered (fold (notifyInputHostClient (ctx_created True) created_E1) [''H2'']
        (snd (ExtentCreatedEvent_Handle created_E1 (ctx_created True) w0))) =
       [NewInputHostNotificationEvent ''D1'' ''H1'' ''E1'' [''S1'', ''S2'', ''S3'']
          ''ExtentCreated'' ''E1'' NotificationType_ALL,
        NewInputHostNotificationEvent ''D1'' ''H2'' ''E1'' [''S1'', ''S2'', ''S3'']
          ''ExtentCreated'' ''E1'' NotificationType_CLIENT]
   \<and> resultCache_writes
        (reconfigureAllConsumers (ctx_created True)
           (snd (ExtentCreatedEvent_Handle created_E1 (ctx_created True) w0))
           ''D1'' ''E1'' notifyExtentCreated ''E1'' ExtentCreatedEventScope) =
       [(''CG1'', \<lparr>rp_dstType = 1, rp_nExtents = 4, rp_hostIDs = [''O1''],
                   rp_expiry = 1000\<rparr>)]"
proof -
  have h: "eventPipeline_full (ctx_created True) (eventPipeline w0)"
    by (simp add: ctx_created_def)
  show ?thesis
    using ExtentCreated_stops_when_ALL_refused [OF h, of created_E1]
    by (simp add: created_defs)
qed

end
